theory Spec2Isabelle
  imports Main "HOL-Library.Sublist" "HOL-Library.Word"
begin

section \<open>Values, files and errors\<close>

text \<open>
  The relay keeps its idempotency record in a JSON file.  \<open>json\<close> is the value
  \<^verbatim>\<open>json.load\<close> returns: \<^verbatim>\<open>None\<close>, a bool, a number, a string, a list or a dict.  A
  dict is an association list in insertion order, as Python keeps it.  A JSON float
  behaves like an integer in every operation used here (membership test and item
  assignment both raise \<^verbatim>\<open>TypeError\<close>), so numbers are integers.
\<close>

datatype json =
    JNull
  | JBool bool
  | JNum int
  | JStr string
  | JList "json list"
  | JDict "(string \<times> json) list"

text \<open>
  What \<^verbatim>\<open>open(path, 'r')\<close> followed by \<^verbatim>\<open>json.load\<close> meets at a path:
  no file (\<^verbatim>\<open>FileNotFoundError\<close>); a file that cannot be opened or read (with the
  exception raised, for instance \<open>OSError\<close> for \<^verbatim>\<open>PermissionError\<close> and
  \<^verbatim>\<open>IsADirectoryError\<close>); a file whose bytes are not text in the encoding (reading
  raises \<^verbatim>\<open>UnicodeDecodeError\<close>); text that is not valid JSON
  (\<^verbatim>\<open>json.JSONDecodeError\<close>); or text that is the JSON encoding of a value.
  \<^verbatim>\<open>json.dump\<close> and \<^verbatim>\<open>json.load\<close> are library functions: a file written completely
  by \<^verbatim>\<open>json.dump(v, f, indent=4)\<close> is \<open>Holds v\<close>, the text \<^verbatim>\<open>json.load\<close> reads back as
  \<open>v\<close> (string keys, integers and strings round-trip exactly).
\<close>

datatype error = OSError | TypeError | KeyError string | ValueError | UnicodeDecodeError

datatype disk_file = Missing | Unreadable error | Undecodable | Invalid | Holds json

type_synonym filesystem = "string \<Rightarrow> disk_file"

datatype level = INFO | WARNING | ERROR

type_synonym log = "(level \<times> string) list"

text \<open>
  How one \<^verbatim>\<open>open(path, 'w')\<close> followed by \<^verbatim>\<open>json.dump\<close> goes.  \<open>OpenFails\<close>: \<^verbatim>\<open>open\<close> raises
  (the file stays as it was).  \<open>WriteFails\<close>: \<^verbatim>\<open>open\<close> has truncated the file and the
  write or the closing flush raises (disk full, I/O error), which leaves a proper prefix
  of the encoding of a non-empty dict: text that is not valid JSON.
\<close>

datatype write_fault = NoFault | OpenFails | WriteFails

section \<open>StateDB\<close>

record state_db =
  db_path :: string
  db :: json

definition load_db :: "filesystem \<Rightarrow> string \<Rightarrow> error + (json \<times> log)" where
  "load_db fs path =
     (case fs path of
        Holds v \<Rightarrow> Inr (v, [])
      | Missing \<Rightarrow>
          Inr (JDict [], [(WARNING, ''Database file not found or invalid. Starting with an empty state.'')])
      | Invalid \<Rightarrow>
          Inr (JDict [], [(WARNING, ''Database file not found or invalid. Starting with an empty state.'')])
      | Unreadable e \<Rightarrow> Inl e
      | Undecodable \<Rightarrow> Inl UnicodeDecodeError)"

definition StateDB_init :: "filesystem \<Rightarrow> string \<Rightarrow> error + (state_db \<times> log)" where
  "StateDB_init fs path =
     (case load_db fs path of
        Inl e \<Rightarrow> Inl e
      | Inr (v, lg) \<Rightarrow>
          Inr (\<lparr>db_path = path, db = v\<rparr>, lg @ [(INFO, ''StateDB initialized with path: '' @ path)]))"

definition save_db :: "state_db \<Rightarrow> filesystem \<Rightarrow> write_fault \<Rightarrow> filesystem \<times> log" where
  "save_db st fs fault =
     (case fault of
        NoFault \<Rightarrow> (fs(db_path st := Holds (db st)), [])
      | OpenFails \<Rightarrow> (fs, [(ERROR, ''Failed to save state database'')])
      | WriteFails \<Rightarrow> (fs(db_path st := Invalid), [(ERROR, ''Failed to save state database'')]))"

text \<open>
  \<^verbatim>\<open>tx_hash in self._db\<close>: key membership on a dict, element equality on a list,
  substring test on a string, \<^verbatim>\<open>TypeError\<close> on \<^verbatim>\<open>None\<close>, a bool or a number.
\<close>

definition has_processed :: "state_db \<Rightarrow> string \<Rightarrow> error + bool" where
  "has_processed st tx_hash =
     (case db st of
        JDict d \<Rightarrow> Inr (tx_hash \<in> fst ` set d)
      | JList xs \<Rightarrow> Inr (JStr tx_hash \<in> set xs)
      | JStr s \<Rightarrow> Inr (sublist tx_hash s)
      | _ \<Rightarrow> Inl TypeError)"

text \<open>
  \<^verbatim>\<open>self._db[tx_hash] = {...}\<close> on a key that is not in the dict appends the entry;
  on a list or a string it raises \<^verbatim>\<open>TypeError\<close> before anything is changed.
  \<open>now\<close> is \<^verbatim>\<open>int(time.time())\<close>, \<open>str_of\<close> is Python's \<^verbatim>\<open>str\<close> on the event data.
\<close>

definition mark_as_processed ::
  "('e \<Rightarrow> string) \<Rightarrow> state_db \<Rightarrow> filesystem \<Rightarrow> int \<Rightarrow> write_fault \<Rightarrow> string \<Rightarrow> 'e
     \<Rightarrow> error + (state_db \<times> filesystem \<times> log)" where
  "mark_as_processed str_of st fs now fault tx_hash event_data =
     (case has_processed st tx_hash of
        Inl e \<Rightarrow> Inl e
      | Inr True \<Rightarrow>
          Inr (st, fs, [(WARNING, ''Attempted to re-process transaction hash: '' @ tx_hash)])
      | Inr False \<Rightarrow>
          (case db st of
             JDict d \<Rightarrow>
               (let st' = st\<lparr>db := JDict (d @ [(tx_hash,
                              JDict [(''timestamp'', JNum now),
                                     (''event_data'', JStr (str_of event_data))])])\<rparr>;
                    (fs', lg) = save_db st' fs fault
                in Inr (st', fs', lg @ [(INFO, ''Marked transaction '' @ tx_hash @ '' as processed.'')]))
           | _ \<Rightarrow> Inl TypeError))"

section \<open>Events\<close>

text \<open>
  A decoded log entry as web3 delivers it: the transaction hash (bytes), the log index
  and the decoded arguments, a mapping from argument name to value.
\<close>

datatype pyval = VInt int | VStr string | VBytes "8 word list"

type_synonym event_args = "(string \<times> pyval) list"

record event =
  transactionHash :: "8 word list"
  logIndex :: int
  args :: event_args

definition hex_digit :: "nat \<Rightarrow> char" where
  "hex_digit n = ''0123456789abcdef'' ! n"

text \<open>
  \<^verbatim>\<open>.hex()\<close> on the transaction hash, as \<^verbatim>\<open>bytes.hex()\<close> gives it: two lower-case
  hexadecimal digits per byte.
\<close>

definition hex :: "8 word list \<Rightarrow> string" where
  "hex bs = concat (map (\<lambda>b. [hex_digit (unat b div 16), hex_digit (unat b mod 16)]) bs)"

definition digit :: "nat \<Rightarrow> char" where
  "digit n = ''0123456789'' ! n"

function str_nat :: "nat \<Rightarrow> string" where
  "str_nat n = (if n < 10 then [digit n] else str_nat (n div 10) @ [digit (n mod 10)])"
  by pat_completeness auto
termination
  by (relation "measure id") auto

declare str_nat.simps [simp del]

text \<open>How an f-string formats an integer: decimal digits, with a sign when negative.\<close>

definition str_int :: "int \<Rightarrow> string" where
  "str_int i = (if i < 0 then CHR ''-'' # str_nat (nat (- i)) else str_nat (nat i))"

text \<open>\<^verbatim>\<open>f"{tx_hash}-{log_index}"\<close>, the key under which an event is recorded.\<close>

definition event_identifier :: "event \<Rightarrow> string" where
  "event_identifier ev = hex (transactionHash ev) @ ''-'' @ str_int (logIndex ev)"

section \<open>TransactionProcessor\<close>

text \<open>
  What the processor does that can be observed from outside, in the order it does it:
  log lines, and its calls to the state store and to the destination-chain simulation
  (with the simulation's normal return).  A log line keeps the level and the text of the
  source's message; where the source formats an exception, a dict or a chain id into
  the message, that part is left out.
\<close>

datatype effect =
    Log level string
  | Call_has_processed string
  | Call_simulate_destination_tx event_args
  | Return_simulate_destination_tx
  | Call_mark_as_processed string

datatype outcome =
    Raised error
  | Skipped_already_processed
  | Skipped_malformed
  | Skipped_not_positive
  | Processed

text \<open>
  \<^verbatim>\<open>_simulate_destination_tx\<close> builds \<^verbatim>\<open>tx_details\<close> left to right: the checksum of
  \<^verbatim>\<open>event_args['sender']\<close>, then \<^verbatim>\<open>event_args['recipient']\<close>, \<^verbatim>\<open>['amount']\<close> and
  \<^verbatim>\<open>['token']\<close>; a missing key raises \<^verbatim>\<open>KeyError\<close>.  \<^verbatim>\<open>Web3.to_checksum_address\<close> is a
  library function and a parameter here: it returns the address or raises.
\<close>

definition simulate_destination_tx ::
  "(pyval \<Rightarrow> error + string) \<Rightarrow> event_args \<Rightarrow> error + log" where
  "simulate_destination_tx to_checksum_address event_args =
     (case map_of event_args ''sender'' of
        None \<Rightarrow> Inl (KeyError ''sender'')
      | Some s \<Rightarrow>
     (case to_checksum_address s of
        Inl e \<Rightarrow> Inl e
      | Inr from_addr \<Rightarrow>
     (case map_of event_args ''recipient'' of
        None \<Rightarrow> Inl (KeyError ''recipient'')
      | Some r \<Rightarrow>
     (case map_of event_args ''amount'' of
        None \<Rightarrow> Inl (KeyError ''amount'')
      | Some a \<Rightarrow>
     (case map_of event_args ''token'' of
        None \<Rightarrow> Inl (KeyError ''token'')
      | Some t \<Rightarrow>
          Inr [(INFO, ''[SIMULATION] Creating destination transaction''),
               (INFO, ''[SIMULATION] Destination transaction sent and confirmed.'')])))))"

definition process_lock_event ::
  "(pyval \<Rightarrow> error + string) \<Rightarrow> (event_args \<Rightarrow> string) \<Rightarrow> state_db \<Rightarrow> filesystem
     \<Rightarrow> int \<Rightarrow> write_fault \<Rightarrow> event \<Rightarrow> outcome \<times> state_db \<times> filesystem \<times> effect list" where
  "process_lock_event to_checksum_address str_of st fs now fault ev =
     (let tx_hash = hex (transactionHash ev);
          event_id = event_identifier ev;
          t1 = [Log INFO (''Processing event from transaction: '' @ tx_hash),
                Call_has_processed event_id]
      in case has_processed st event_id of
           Inl e \<Rightarrow> (Raised e, st, fs, t1)
         | Inr True \<Rightarrow>
             (Skipped_already_processed, st, fs,
              t1 @ [Log WARNING (''Event '' @ event_id @ '' has already been processed. Skipping.'')])
         | Inr False \<Rightarrow>
             (let event_args = args ev in
              if \<not> list_all (\<lambda>k. k \<in> fst ` set event_args)
                      [''sender'', ''token'', ''amount'', ''destinationChainId'']
              then (Skipped_malformed, st, fs,
                    t1 @ [Log ERROR (''Malformed event '' @ event_id @ '': missing required arguments. Skipping.'')])
              else
                (case map_of event_args ''amount'' of
                   None \<Rightarrow> (Raised (KeyError ''amount''), st, fs, t1)
                 | Some (VInt amount) \<Rightarrow>
                     if amount \<le> 0
                     then (Skipped_not_positive, st, fs,
                           t1 @ [Log ERROR (''Invalid event '' @ event_id @ '': lock amount must be positive. Skipping.'')])
                     else
                       (let t2 = t1 @ [Log INFO ''Event valid. Simulating minting transaction.'',
                                       Call_simulate_destination_tx event_args]
                        in case simulate_destination_tx to_checksum_address event_args of
                             Inl e \<Rightarrow> (Raised e, st, fs, t2)
                           | Inr lg \<Rightarrow>
                               (let t3 = t2 @ map (\<lambda>(l, m). Log l m) lg
                                            @ [Return_simulate_destination_tx,
                                               Call_mark_as_processed event_id]
                                in case mark_as_processed str_of st fs now fault event_id event_args of
                                     Inl e \<Rightarrow> (Raised e, st, fs, t3)
                                   | Inr (st', fs', lg') \<Rightarrow>
                                       (Processed, st', fs',
                                        t3 @ map (\<lambda>(l, m). Log l m) lg'
                                           @ [Log INFO (''Successfully processed and marked event '' @ event_id @ ''.'')])))
                 | Some _ \<Rightarrow> (Raised TypeError, st, fs, t1))))"

section \<open>BridgeEventListener: one batch of fetched events\<close>

text \<open>
  The \<^verbatim>\<open>for event in events\<close> loop of \<^verbatim>\<open>start_listening\<close>.  Each event comes with the
  clock reading and the behaviour of the disk met while it is processed.  An exception
  leaves the loop: the remaining events of the batch are not processed.
\<close>

fun for_events ::
  "(pyval \<Rightarrow> error + string) \<Rightarrow> (event_args \<Rightarrow> string) \<Rightarrow> state_db \<Rightarrow> filesystem
     \<Rightarrow> (event \<times> int \<times> write_fault) list \<Rightarrow> error option \<times> state_db \<times> filesystem \<times> effect list" where
  "for_events tca str_of st fs [] = (None, st, fs, [])"
| "for_events tca str_of st fs ((ev, now, fault) # rest) =
     (case process_lock_event tca str_of st fs now fault ev of
        (Raised e, st', fs', t) \<Rightarrow> (Some e, st', fs', t)
      | (out, st', fs', t) \<Rightarrow>
          (case for_events tca str_of st' fs' rest of
             (r, st'', fs'', t') \<Rightarrow> (r, st'', fs'', t @ t')))"

text \<open>
  The body of one turn of the \<^verbatim>\<open>while True\<close> loop after the connection check:
  an empty poll is logged, a batch is drained, and an exception is caught and logged.
\<close>

definition poll_cycle ::
  "(pyval \<Rightarrow> error + string) \<Rightarrow> (event_args \<Rightarrow> string) \<Rightarrow> state_db \<Rightarrow> filesystem
     \<Rightarrow> (event \<times> int \<times> write_fault) list \<Rightarrow> state_db \<times> filesystem \<times> effect list" where
  "poll_cycle tca str_of st fs events =
     (if events = [] then (st, fs, [Log INFO ''No new events found. Waiting...''])
      else case for_events tca str_of st fs events of
             (None, st', fs', t) \<Rightarrow> (st', fs', t)
           | (Some e, st', fs', t) \<Rightarrow>
               (st', fs', t @ [Log ERROR ''An error occurred in the listening loop'']))"

section \<open>Histories of the state store\<close>

text \<open>
  What can happen to a StateDB after a call: further \<^verbatim>\<open>mark_as_processed\<close> calls, with
  any key, data, clock and disk behaviour, and restarts of the process, which construct
  the StateDB again from the file.  \<^verbatim>\<open>has_processed\<close> changes nothing.  A call that
  raises has changed nothing, and the history goes on from the same state.
\<close>

datatype 'e op = Op_mark string 'e int write_fault | Op_restart

fun apply_op ::
  "('e \<Rightarrow> string) \<Rightarrow> state_db \<times> filesystem \<Rightarrow> 'e op \<Rightarrow> error + (state_db \<times> filesystem)" where
  "apply_op str_of (st, fs) (Op_mark k ed now fault) =
     (case mark_as_processed str_of st fs now fault k ed of
        Inl e \<Rightarrow> Inr (st, fs)
      | Inr (st', fs', lg) \<Rightarrow> Inr (st', fs'))"
| "apply_op str_of (st, fs) Op_restart =
     (case StateDB_init fs (db_path st) of
        Inl e \<Rightarrow> Inl e
      | Inr (st', lg) \<Rightarrow> Inr (st', fs))"

fun run_ops ::
  "('e \<Rightarrow> string) \<Rightarrow> state_db \<times> filesystem \<Rightarrow> 'e op list \<Rightarrow> error + (state_db \<times> filesystem)" where
  "run_ops str_of s [] = Inr s"
| "run_ops str_of s (x # xs) =
     (case apply_op str_of s x of
        Inl e \<Rightarrow> Inl e
      | Inr s' \<Rightarrow> run_ops str_of s' xs)"

text \<open>A write that truncates the file and then fails.\<close>

fun truncating :: "'e op \<Rightarrow> bool" where
  "truncating (Op_mark k ed now fault) = (fault = WriteFails)"
| "truncating Op_restart = False"

section \<open>Counting calls in a trace\<close>

fun is_call :: "effect \<Rightarrow> bool" where
  "is_call (Log l m) = False"
| "is_call e = True"

definition calls :: "effect list \<Rightarrow> effect list" where
  "calls t = filter is_call t"

fun is_execute :: "effect \<Rightarrow> bool" where
  "is_execute (Call_simulate_destination_tx a) = True"
| "is_execute e = False"

fun is_mark :: "effect \<Rightarrow> bool" where
  "is_mark (Call_mark_as_processed k) = True"
| "is_mark e = False"

definition executes :: "effect list \<Rightarrow> nat" where
  "executes t = length (filter is_execute t)"

definition marks :: "effect list \<Rightarrow> nat" where
  "marks t = length (filter is_mark t)"

text \<open>The keys looked up in the state store, in the order of the lookups.\<close>

fun checked :: "effect list \<Rightarrow> string list" where
  "checked [] = []"
| "checked (Call_has_processed k # t) = k # checked t"
| "checked (e # t) = checked t"

section \<open>The order of steps in the specification's words\<close>

text \<open>
  The specification words the handling of one event as: validate (all required fields of
  the schema present, amount positive), then skip if \<open>hasProcessed\<close>, then execute, then
  \<open>markProcessed\<close> on success.  \<open>spec_draining_outcome\<close> is that order, for comparison with
  \<open>process_lock_event\<close>; it is not taken from the code.
\<close>

definition spec_draining_outcome :: "state_db \<Rightarrow> event \<Rightarrow> outcome" where
  "spec_draining_outcome st ev =
     (if \<not> list_all (\<lambda>k. k \<in> fst ` set (args ev))
              [''sender'', ''token'', ''amount'', ''destinationChainId'', ''recipient'']
      then Skipped_malformed
      else case map_of (args ev) ''amount'' of
             Some (VInt amount) \<Rightarrow>
               if amount \<le> 0 then Skipped_not_positive
               else (case has_processed st (event_identifier ev) of
                       Inr True \<Rightarrow> Skipped_already_processed
                     | Inr False \<Rightarrow> Processed
                     | Inl e \<Rightarrow> Raised e)
           | _ \<Rightarrow> Raised TypeError)"

section \<open>What a restart finds\<close>

text \<open>
  What a restart would find: the file at the path holds a value in which the key is
  recorded.
\<close>

definition on_disk :: "filesystem \<Rightarrow> string \<Rightarrow> string \<Rightarrow> bool" where
  "on_disk fs path k =
     (case fs path of
        Holds v \<Rightarrow> has_processed \<lparr>db_path = path, db = v\<rparr> k = Inr True
      | _ \<Rightarrow> False)"

section \<open>Cold start\<close>




section \<open>What one call of \<^verbatim>\<open>mark_as_processed\<close> does\<close>

lemma mark_as_processed_cases:
  assumes "mark_as_processed str_of st fs now fault k ed = Inr (st', fs', lg)"
  shows "(has_processed st k = Inr True \<and> st' = st \<and> fs' = fs
            \<and> lg = [(WARNING, ''Attempted to re-process transaction hash: '' @ k)])
       \<or> (\<exists>d. db st = JDict d \<and> k \<notin> fst ` set d
              \<and> st' = st\<lparr>db := JDict (d @ [(k, JDict [(''timestamp'', JNum now),
                                                        (''event_data'', JStr (str_of ed))])])\<rparr>
              \<and> fs' = fst (save_db st' fs fault)
              \<and> lg = snd (save_db st' fs fault) @ [(INFO, ''Marked transaction '' @ k @ '' as processed.'')])"
proof (cases "has_processed st k")
  case (Inl e)
  with assms show ?thesis by (simp add: mark_as_processed_def)
next
  case (Inr b)
  show ?thesis
  proof (cases b)
    case True
    with Inr assms show ?thesis by (simp add: mark_as_processed_def)
  next
    case False
    with Inr assms obtain d where d: "db st = JDict d"
      by (cases "db st") (simp_all add: mark_as_processed_def)
    with Inr False have "k \<notin> fst ` set d" by (simp add: has_processed_def)
    with d Inr False assms show ?thesis
      by (simp add: mark_as_processed_def Let_def split: prod.splits)
  qed
qed

lemma mark_as_processed_path:
  "mark_as_processed str_of st fs now fault k ed = Inr (st', fs', lg) \<Longrightarrow> db_path st' = db_path st"
  by (drule mark_as_processed_cases) auto

lemma mark_as_processed_has:
  "mark_as_processed str_of st fs now fault k ed = Inr (st', fs', lg) \<Longrightarrow> has_processed st' k = Inr True"
  by (drule mark_as_processed_cases) (auto simp: has_processed_def)

lemma mark_as_processed_keeps:
  "mark_as_processed str_of st fs now fault k' ed = Inr (st', fs', lg) \<Longrightarrow>
     has_processed st k = Inr True \<Longrightarrow> has_processed st' k = Inr True"
  by (drule mark_as_processed_cases) (auto simp: has_processed_def)

lemma mark_as_processed_fresh:
  "db st = JDict d \<Longrightarrow> k \<notin> fst ` set d \<Longrightarrow>
   mark_as_processed str_of st fs now fault k ed =
     Inr (st\<lparr>db := JDict (d @ [(k, JDict [(''timestamp'', JNum now), (''event_data'', JStr (str_of ed))])])\<rparr>,
          fst (save_db (st\<lparr>db := JDict (d @ [(k, JDict [(''timestamp'', JNum now), (''event_data'', JStr (str_of ed))])])\<rparr>) fs fault),
          snd (save_db (st\<lparr>db := JDict (d @ [(k, JDict [(''timestamp'', JNum now), (''event_data'', JStr (str_of ed))])])\<rparr>) fs fault)
            @ [(INFO, ''Marked transaction '' @ k @ '' as processed.'')])"
  by (simp add: mark_as_processed_def has_processed_def Let_def split: prod.splits)

section \<open>Marking the same key twice\<close>

text \<open>
  C3, in the form the code satisfies. When a call \<^verbatim>\<open>mark_as_processed(k, _)\<close> has returned, a second call
  with the same key, whatever its data, clock and disk behaviour, returns normally as
  well: it raises no error, it logs one warning (an I/O failure logs at level ERROR
  instead), and it leaves the in-memory state and the file as the first call left them,
  so the stored record of \<open>k\<close> keeps its timestamp and snapshot.
\<close>

theorem mark_as_processed_twice:
  assumes "mark_as_processed str_of st fs now fault k ed = Inr (st1, fs1, lg1)"
  shows "mark_as_processed str_of' st1 fs1 now' fault' k ed'
           = Inr (st1, fs1, [(WARNING, ''Attempted to re-process transaction hash: '' @ k)])"
proof -
  from assms have "has_processed st1 k = Inr True" by (rule mark_as_processed_has)
  then show ?thesis by (simp add: mark_as_processed_def)
qed

theorem mark_as_processed_twice_witness:
  "mark_as_processed (\<lambda>e. e) \<lparr>db_path = ''db.json'', db = JDict []\<rparr> (\<lambda>p. Missing) 1 NoFault ''ab-0'' ''e''
     = Inr (\<lparr>db_path = ''db.json'',
              db = JDict [(''ab-0'', JDict [(''timestamp'', JNum 1), (''event_data'', JStr ''e'')])]\<rparr>,
            (\<lambda>p. Missing)(''db.json'' := Holds (JDict [(''ab-0'', JDict [(''timestamp'', JNum 1), (''event_data'', JStr ''e'')])])),
            [(INFO, ''Marked transaction ab-0 as processed.'')])
   \<and> mark_as_processed (\<lambda>e. e)
        \<lparr>db_path = ''db.json'',
          db = JDict [(''ab-0'', JDict [(''timestamp'', JNum 1), (''event_data'', JStr ''e'')])]\<rparr>
        ((\<lambda>p. Missing)(''db.json'' := Holds (JDict [(''ab-0'', JDict [(''timestamp'', JNum 1), (''event_data'', JStr ''e'')])])))
        2 WriteFails ''ab-0'' ''f''
     = Inr (\<lparr>db_path = ''db.json'',
              db = JDict [(''ab-0'', JDict [(''timestamp'', JNum 1), (''event_data'', JStr ''e'')])]\<rparr>,
            (\<lambda>p. Missing)(''db.json'' := Holds (JDict [(''ab-0'', JDict [(''timestamp'', JNum 1), (''event_data'', JStr ''e'')])])),
            [(WARNING, ''Attempted to re-process transaction hash: ab-0'')])"
proof -
  have first: "mark_as_processed (\<lambda>e. e) \<lparr>db_path = ''db.json'', db = JDict []\<rparr> (\<lambda>p. Missing) 1 NoFault ''ab-0'' ''e''
     = Inr (\<lparr>db_path = ''db.json'',
              db = JDict [(''ab-0'', JDict [(''timestamp'', JNum 1), (''event_data'', JStr ''e'')])]\<rparr>,
            (\<lambda>p. Missing)(''db.json'' := Holds (JDict [(''ab-0'', JDict [(''timestamp'', JNum 1), (''event_data'', JStr ''e'')])])),
            [(INFO, ''Marked transaction ab-0 as processed.'')])"
    by (simp add: mark_as_processed_def has_processed_def save_db_def)
  from mark_as_processed_twice [OF first, of "\<lambda>e. e" 2 WriteFails "''f''"] first
  show ?thesis by simp
qed

theorem mark_as_processed_twice_counterexample:
  "mark_as_processed (\<lambda>e. e) \<lparr>db_path = ''db.json'', db = JDict []\<rparr> (\<lambda>p. Missing) 1 NoFault ''ab-0'' ''e''
     = Inr (\<lparr>db_path = ''db.json'',
              db = JDict [(''ab-0'', JDict [(''timestamp'', JNum 1), (''event_data'', JStr ''e'')])]\<rparr>,
            (\<lambda>p. Missing)(''db.json'' := Holds (JDict [(''ab-0'', JDict [(''timestamp'', JNum 1), (''event_data'', JStr ''e'')])])),
            [(INFO, ''Marked transaction ab-0 as processed.'')])
   \<and> \<not> isl (mark_as_processed (\<lambda>e. e)
        \<lparr>db_path = ''db.json'',
          db = JDict [(''ab-0'', JDict [(''timestamp'', JNum 1), (''event_data'', JStr ''e'')])]\<rparr>
        ((\<lambda>p. Missing)(''db.json'' := Holds (JDict [(''ab-0'', JDict [(''timestamp'', JNum 1), (''event_data'', JStr ''e'')])])))
        2 NoFault ''ab-0'' ''e'')"
  by (simp add: mark_as_processed_def has_processed_def save_db_def)

section \<open>A failing write\<close>

text \<open>
  C10. When the write of the file fails (at \<^verbatim>\<open>open\<close> or after it), \<^verbatim>\<open>mark_as_processed\<close>
  on a fresh key still returns normally: the error is only logged, the in-memory dict
  holds the key, so \<^verbatim>\<open>has_processed(k)\<close> is true in this process, while a StateDB
  constructed again from the file answers false.  The in-memory dict is what the file
  loaded to before the call, as after construction or after a successful save.
\<close>

theorem mark_as_processed_swallows_write_failure:
  assumes dict: "db st = JDict d" and fresh: "k \<notin> fst ` set d"
    and sync: "load_db fs (db_path st) = Inr (JDict d, lg0)"
    and fault: "fault \<noteq> NoFault"
  shows "\<exists>st' fs' st'' lg''.
           mark_as_processed str_of st fs now fault k ed
             = Inr (st', fs', [(ERROR, ''Failed to save state database''),
                               (INFO, ''Marked transaction '' @ k @ '' as processed.'')])
         \<and> has_processed st' k = Inr True
         \<and> StateDB_init fs' (db_path st') = Inr (st'', lg'')
         \<and> has_processed st'' k = Inr False"
proof (cases fault)
  case NoFault
  with fault show ?thesis by simp
next
  case OpenFails
  with dict fresh sync show ?thesis
    by (simp add: mark_as_processed_fresh save_db_def has_processed_def StateDB_init_def)
next
  case WriteFails
  with dict fresh show ?thesis
    by (simp add: mark_as_processed_fresh save_db_def has_processed_def StateDB_init_def load_db_def)
qed

theorem mark_as_processed_swallows_write_failure_witness:
  "db \<lparr>db_path = ''db.json'', db = JDict []\<rparr> = JDict []
   \<and> ''ab-0'' \<notin> fst ` set ([] :: (string \<times> json) list)
   \<and> load_db (\<lambda>p. Missing) (db_path \<lparr>db_path = ''db.json'', db = JDict []\<rparr>)
        = Inr (JDict [], [(WARNING, ''Database file not found or invalid. Starting with an empty state.'')])
   \<and> OpenFails \<noteq> NoFault
   \<and> (\<exists>st' fs' st'' lg''.
         mark_as_processed (\<lambda>e. e) \<lparr>db_path = ''db.json'', db = JDict []\<rparr> (\<lambda>p. Missing) 1 OpenFails ''ab-0'' ''e''
           = Inr (st', fs', [(ERROR, ''Failed to save state database''),
                             (INFO, ''Marked transaction '' @ ''ab-0'' @ '' as processed.'')])
       \<and> has_processed st' ''ab-0'' = Inr True
       \<and> StateDB_init fs' (db_path st') = Inr (st'', lg'')
       \<and> has_processed st'' ''ab-0'' = Inr False)"
proof -
  have a: "db \<lparr>db_path = ''db.json'', db = JDict []\<rparr> = JDict []" by simp
  have b: "''ab-0'' \<notin> fst ` set ([] :: (string \<times> json) list)" by simp
  have c: "load_db (\<lambda>p. Missing) (db_path \<lparr>db_path = ''db.json'', db = JDict []\<rparr>)
        = Inr (JDict [], [(WARNING, ''Database file not found or invalid. Starting with an empty state.'')])"
    by (simp add: load_db_def)
  have d: "OpenFails \<noteq> NoFault" by simp
  from mark_as_processed_swallows_write_failure [OF a b c d, of "\<lambda>e. e" 1 "''e''"] a b c d
  show ?thesis by blast
qed


text \<open>
  C7, in the form the code satisfies. \<^verbatim>\<open>_save_db\<close> writes the durable file itself, opened with mode
  \<^verbatim>\<open>'w'\<close>, and no other path.  When \<^verbatim>\<open>open\<close> fails the file system is left as it was;
  when the write fails after \<^verbatim>\<open>open\<close> the durable file is left truncated, and a later
  load starts from the empty state.  In both cases the error is caught and logged at
  level ERROR, and the call returns normally with the key in the in-memory dict.
\<close>

theorem save_db_in_place:
  assumes dict: "db st = JDict d" and fresh: "k \<notin> fst ` set d"
  shows "mark_as_processed str_of st fs now fault k ed
           = Inr (st\<lparr>db := JDict (d @ [(k, JDict [(''timestamp'', JNum now),
                                                 (''event_data'', JStr (str_of ed))])])\<rparr>,
                  (case fault of
                     NoFault \<Rightarrow>
                       fs(db_path st := Holds (JDict (d @ [(k, JDict [(''timestamp'', JNum now),
                                                     (''event_data'', JStr (str_of ed))])])))
                   | OpenFails \<Rightarrow> fs
                   | WriteFails \<Rightarrow> fs(db_path st := Invalid)),
                  (case fault of
                     NoFault \<Rightarrow> [(INFO, ''Marked transaction '' @ k @ '' as processed.'')]
                   | OpenFails \<Rightarrow>
                       [(ERROR, ''Failed to save state database''),
                        (INFO, ''Marked transaction '' @ k @ '' as processed.'')]
                   | WriteFails \<Rightarrow>
                       [(ERROR, ''Failed to save state database''),
                        (INFO, ''Marked transaction '' @ k @ '' as processed.'')]))
         \<and> load_db (fs(db_path st := Invalid)) (db_path st)
               = Inr (JDict [], [(WARNING, ''Database file not found or invalid. Starting with an empty state.'')])"
  using dict fresh
  by (cases fault) (simp_all add: mark_as_processed_fresh save_db_def load_db_def)

theorem save_db_in_place_witness:
  "db \<lparr>db_path = ''db.json'', db = JDict []\<rparr> = JDict []
   \<and> ''ab-0'' \<notin> fst ` set ([] :: (string \<times> json) list)
   \<and> mark_as_processed (\<lambda>e. e) \<lparr>db_path = ''db.json'', db = JDict []\<rparr> (\<lambda>p. Missing) 1 OpenFails ''ab-0'' ''e''
       = Inr (\<lparr>db_path = ''db.json'',
                db = JDict [(''ab-0'', JDict [(''timestamp'', JNum 1), (''event_data'', JStr ''e'')])]\<rparr>,
              (\<lambda>p. Missing),
              [(ERROR, ''Failed to save state database''),
               (INFO, ''Marked transaction ab-0 as processed.'')])
   \<and> mark_as_processed (\<lambda>e. e) \<lparr>db_path = ''db.json'', db = JDict []\<rparr> (\<lambda>p. Missing) 1 WriteFails ''ab-0'' ''e''
       = Inr (\<lparr>db_path = ''db.json'',
                db = JDict [(''ab-0'', JDict [(''timestamp'', JNum 1), (''event_data'', JStr ''e'')])]\<rparr>,
              (\<lambda>p. Missing)(''db.json'' := Invalid),
              [(ERROR, ''Failed to save state database''),
               (INFO, ''Marked transaction ab-0 as processed.'')])"
proof -
  have a: "db \<lparr>db_path = ''db.json'', db = JDict []\<rparr> = JDict []" by simp
  have b: "''ab-0'' \<notin> fst ` set ([] :: (string \<times> json) list)" by simp
  from save_db_in_place [OF a b, of "\<lambda>e. e" "\<lambda>p. Missing" 1 OpenFails "''e''"]
       save_db_in_place [OF a b, of "\<lambda>e. e" "\<lambda>p. Missing" 1 WriteFails "''e''"] a b
  show ?thesis by simp
qed

theorem save_db_in_place_counterexample:
  "(case mark_as_processed (\<lambda>e. e)
           \<lparr>db_path = ''db.json'', db = JDict [(''ab-0'', JDict [(''timestamp'', JNum 1), (''event_data'', JStr ''e'')])]\<rparr>
           (\<lambda>p. Holds (JDict [(''ab-0'', JDict [(''timestamp'', JNum 1), (''event_data'', JStr ''e'')])]))
           2 WriteFails ''ab-1'' ''f'' of
      Inl e \<Rightarrow> False
    | Inr (st', fs', lg) \<Rightarrow>
        fs' ''db.json'' = Invalid
        \<and> fs' ''db.json'' \<noteq> Holds (JDict [(''ab-0'', JDict [(''timestamp'', JNum 1), (''event_data'', JStr ''e'')])])
        \<and> (ERROR, ''Failed to save state database'') \<in> set lg)"
  by (simp add: mark_as_processed_def has_processed_def save_db_def)

section \<open>A recorded key stays recorded\<close>

lemma on_disk_init:
  "on_disk fs path k \<Longrightarrow>
     \<exists>st lg. StateDB_init fs path = Inr (st, lg) \<and> db_path st = path \<and> has_processed st k = Inr True"
  by (auto simp: on_disk_def StateDB_init_def load_db_def split: disk_file.splits)

lemma has_processed_db: "db st = db st' \<Longrightarrow> has_processed st k = has_processed st' k"
  by (simp add: has_processed_def)

lemma mark_as_processed_on_disk:
  assumes m: "mark_as_processed str_of st fs now fault k' ed = Inr (st', fs', lg)"
    and mem: "has_processed st k = Inr True" and disk: "on_disk fs (db_path st) k"
    and nt: "fault \<noteq> WriteFails"
  shows "on_disk fs' (db_path st') k"
proof -
  have p: "db_path st' = db_path st" using m by (rule mark_as_processed_path)
  have mem': "has_processed st' k = Inr True" using m mem by (rule mark_as_processed_keeps)
  from mark_as_processed_cases [OF m] show ?thesis
  proof
    assume "has_processed st k' = Inr True \<and> st' = st \<and> fs' = fs
        \<and> lg = [(WARNING, ''Attempted to re-process transaction hash: '' @ k')]"
    with disk show ?thesis by simp
  next
    assume "\<exists>d. db st = JDict d \<and> k' \<notin> fst ` set d
              \<and> st' = st\<lparr>db := JDict (d @ [(k', JDict [(''timestamp'', JNum now),
                                                        (''event_data'', JStr (str_of ed))])])\<rparr>
              \<and> fs' = fst (save_db st' fs fault)
              \<and> lg = snd (save_db st' fs fault) @ [(INFO, ''Marked transaction '' @ k' @ '' as processed.'')]"
    then have fs': "fs' = fst (save_db st' fs fault)" by blast
    show ?thesis
    proof (cases fault)
      case NoFault
      with fs' have "fs' (db_path st') = Holds (db st')" by (simp add: save_db_def)
      moreover have "has_processed \<lparr>db_path = db_path st', db = db st'\<rparr> k = has_processed st' k"
        by (rule has_processed_db) simp
      ultimately show ?thesis using mem' by (simp add: on_disk_def)
    next
      case OpenFails
      with fs' have "fs' = fs" by (simp add: save_db_def)
      with disk p show ?thesis by simp
    next
      case WriteFails
      with nt show ?thesis by simp
    qed
  qed
qed

lemma mark_as_processed_first_on_disk:
  assumes m: "mark_as_processed str_of st fs now NoFault k ed = Inr (st', fs', lg)"
    and new: "has_processed st k = Inr False"
  shows "on_disk fs' (db_path st') k"
proof -
  have mem': "has_processed st' k = Inr True" using m by (rule mark_as_processed_has)
  from mark_as_processed_cases [OF m] new
  have "fs' = fst (save_db st' fs NoFault)" by auto
  moreover have "db_path st' = db_path st" using m by (rule mark_as_processed_path)
  ultimately have "fs' (db_path st') = Holds (db st')" by (simp add: save_db_def)
  moreover have "has_processed \<lparr>db_path = db_path st', db = db st'\<rparr> k = has_processed st' k"
    by (rule has_processed_db) simp
  ultimately show ?thesis using mem' by (simp add: on_disk_def)
qed

lemma apply_op_keeps_memory:
  assumes "has_processed st k = Inr True" and "x \<noteq> Op_restart"
  shows "\<exists>st' fs'. apply_op str_of (st, fs) x = Inr (st', fs') \<and> has_processed st' k = Inr True"
proof (cases x)
  case (Op_mark k' ed now fault)
  show ?thesis
  proof (cases "mark_as_processed str_of st fs now fault k' ed")
    case (Inl e)
    with Op_mark assms show ?thesis by simp
  next
    case (Inr r)
    obtain st' fs' lg where r: "r = (st', fs', lg)" by (cases r)
    with Inr assms(1) have "has_processed st' k = Inr True"
      by (auto dest: mark_as_processed_keeps)
    with Op_mark Inr r show ?thesis by simp
  qed
next
  case Op_restart
  with assms show ?thesis by simp
qed

lemma run_ops_keeps_memory:
  "has_processed st k = Inr True \<Longrightarrow> Op_restart \<notin> set ops \<Longrightarrow>
     \<exists>st' fs'. run_ops str_of (st, fs) ops = Inr (st', fs') \<and> has_processed st' k = Inr True"
proof (induction ops arbitrary: st fs)
  case Nil
  then show ?case by simp
next
  case (Cons x xs)
  from Cons.prems have "x \<noteq> Op_restart" by auto
  with Cons.prems(1) obtain st' fs' where
    s: "apply_op str_of (st, fs) x = Inr (st', fs')" and h: "has_processed st' k = Inr True"
    using apply_op_keeps_memory by blast
  from Cons.prems have "Op_restart \<notin> set xs" by simp
  with Cons.IH [OF h] s show ?case by simp
qed

lemma apply_op_keeps_disk:
  assumes mem: "has_processed st k = Inr True" and disk: "on_disk fs (db_path st) k"
    and nt: "\<not> truncating x"
  shows "\<exists>st' fs'. apply_op str_of (st, fs) x = Inr (st', fs')
           \<and> has_processed st' k = Inr True \<and> on_disk fs' (db_path st') k"
proof (cases x)
  case (Op_mark k' ed now fault)
  with nt have f: "fault \<noteq> WriteFails" by simp
  show ?thesis
  proof (cases "mark_as_processed str_of st fs now fault k' ed")
    case (Inl e)
    with Op_mark mem disk show ?thesis by simp
  next
    case (Inr r)
    obtain st' fs' lg where r: "r = (st', fs', lg)" by (cases r)
    with Inr have m: "mark_as_processed str_of st fs now fault k' ed = Inr (st', fs', lg)" by simp
    have "has_processed st' k = Inr True" using m mem by (rule mark_as_processed_keeps)
    moreover have "on_disk fs' (db_path st') k" using m mem disk f by (rule mark_as_processed_on_disk)
    ultimately show ?thesis using Op_mark m by simp
  qed
next
  case Op_restart
  from on_disk_init [OF disk] obtain st' lg where
    "StateDB_init fs (db_path st) = Inr (st', lg)" "db_path st' = db_path st" "has_processed st' k = Inr True"
    by blast
  with Op_restart disk show ?thesis by simp
qed

lemma run_ops_keeps_disk:
  "has_processed st k = Inr True \<Longrightarrow> on_disk fs (db_path st) k \<Longrightarrow> \<forall>x\<in>set ops. \<not> truncating x \<Longrightarrow>
     \<exists>st' fs'. run_ops str_of (st, fs) ops = Inr (st', fs')
        \<and> has_processed st' k = Inr True \<and> on_disk fs' (db_path st') k"
proof (induction ops arbitrary: st fs)
  case Nil
  then show ?case by simp
next
  case (Cons x xs)
  from Cons.prems have "\<not> truncating x" by simp
  with Cons.prems(1,2) obtain st' fs' where
    s: "apply_op str_of (st, fs) x = Inr (st', fs')" and h: "has_processed st' k = Inr True"
    and d: "on_disk fs' (db_path st') k"
    using apply_op_keeps_disk by blast
  from Cons.prems have "\<forall>x\<in>set xs. \<not> truncating x" by simp
  from Cons.IH [OF h d this] s show ?case by simp
qed


text \<open>
  C1, in the form the code satisfies. After \<^verbatim>\<open>mark_as_processed(k, _)\<close> has returned, \<^verbatim>\<open>has_processed(k)\<close>
  is true in the same process after any later \<^verbatim>\<open>mark_as_processed\<close> calls, whatever
  happens to their writes.  When the call recorded a new key and its write succeeded,
  and no later write fails after truncating the file, \<^verbatim>\<open>has_processed(k)\<close> is also true
  after any later calls and restarts, and in a StateDB constructed again from the file.
\<close>

theorem has_processed_forever:
  assumes m: "mark_as_processed str_of st fs now fault k ed = Inr (st1, fs1, lg)"
  shows "(Op_restart \<notin> set ops \<longrightarrow>
            (\<exists>st2 fs2. run_ops str_of (st1, fs1) ops = Inr (st2, fs2) \<and> has_processed st2 k = Inr True))
       \<and> (fault = NoFault \<and> has_processed st k = Inr False \<and> (\<forall>x\<in>set ops. \<not> truncating x) \<longrightarrow>
            (\<exists>st2 fs2 st3 lg3. run_ops str_of (st1, fs1) ops = Inr (st2, fs2)
                \<and> has_processed st2 k = Inr True
                \<and> StateDB_init fs2 (db_path st2) = Inr (st3, lg3)
                \<and> has_processed st3 k = Inr True))"
proof (intro conjI impI)
  have h: "has_processed st1 k = Inr True" using m by (rule mark_as_processed_has)
  {
    assume "Op_restart \<notin> set ops"
    with h show "\<exists>st2 fs2. run_ops str_of (st1, fs1) ops = Inr (st2, fs2) \<and> has_processed st2 k = Inr True"
      by (rule run_ops_keeps_memory)
  }
  {
    assume a: "fault = NoFault \<and> has_processed st k = Inr False \<and> (\<forall>x\<in>set ops. \<not> truncating x)"
    with m have "on_disk fs1 (db_path st1) k" by (auto intro: mark_as_processed_first_on_disk)
    with h a obtain st2 fs2 where
      r: "run_ops str_of (st1, fs1) ops = Inr (st2, fs2)" and h2: "has_processed st2 k = Inr True"
      and d2: "on_disk fs2 (db_path st2) k"
      using run_ops_keeps_disk [of st1 k fs1 ops str_of] by blast
    from on_disk_init [OF d2] r h2
    show "\<exists>st2 fs2 st3 lg3. run_ops str_of (st1, fs1) ops = Inr (st2, fs2)
                \<and> has_processed st2 k = Inr True
                \<and> StateDB_init fs2 (db_path st2) = Inr (st3, lg3)
                \<and> has_processed st3 k = Inr True"
      by blast
  }
qed

theorem has_processed_forever_witness:
  "mark_as_processed (\<lambda>e. e) \<lparr>db_path = ''db.json'', db = JDict []\<rparr> (\<lambda>p. Missing) 1 NoFault ''ab-0'' ''e''
     = Inr (\<lparr>db_path = ''db.json'',
              db = JDict [(''ab-0'', JDict [(''timestamp'', JNum 1), (''event_data'', JStr ''e'')])]\<rparr>,
            (\<lambda>p. Missing)(''db.json'' := Holds (JDict [(''ab-0'', JDict [(''timestamp'', JNum 1), (''event_data'', JStr ''e'')])])),
            [(INFO, ''Marked transaction ab-0 as processed.'')])
   \<and> Op_restart \<notin> set [Op_mark ''ab-1'' ''f'' 2 WriteFails]
   \<and> (\<exists>st2 fs2. run_ops (\<lambda>e. e)
          (\<lparr>db_path = ''db.json'',
              db = JDict [(''ab-0'', JDict [(''timestamp'', JNum 1), (''event_data'', JStr ''e'')])]\<rparr>,
           (\<lambda>p. Missing)(''db.json'' := Holds (JDict [(''ab-0'', JDict [(''timestamp'', JNum 1), (''event_data'', JStr ''e'')])])))
          [Op_mark ''ab-1'' ''f'' 2 WriteFails] = Inr (st2, fs2)
        \<and> has_processed st2 ''ab-0'' = Inr True)
   \<and> has_processed \<lparr>db_path = ''db.json'', db = JDict []\<rparr> ''ab-0'' = Inr False
   \<and> \<not> truncating (Op_mark ''ab-1'' ''f'' 2 OpenFails :: string op)
   \<and> \<not> truncating (Op_restart :: string op)
   \<and> (\<exists>st2 fs2 st3 lg3. run_ops (\<lambda>e. e)
          (\<lparr>db_path = ''db.json'',
              db = JDict [(''ab-0'', JDict [(''timestamp'', JNum 1), (''event_data'', JStr ''e'')])]\<rparr>,
           (\<lambda>p. Missing)(''db.json'' := Holds (JDict [(''ab-0'', JDict [(''timestamp'', JNum 1), (''event_data'', JStr ''e'')])])))
          [Op_mark ''ab-1'' ''f'' 2 OpenFails, Op_restart] = Inr (st2, fs2)
        \<and> has_processed st2 ''ab-0'' = Inr True
        \<and> StateDB_init fs2 (db_path st2) = Inr (st3, lg3)
        \<and> has_processed st3 ''ab-0'' = Inr True)"
proof -
  have first: "mark_as_processed (\<lambda>e. e) \<lparr>db_path = ''db.json'', db = JDict []\<rparr> (\<lambda>p. Missing) 1 NoFault ''ab-0'' ''e''
     = Inr (\<lparr>db_path = ''db.json'',
              db = JDict [(''ab-0'', JDict [(''timestamp'', JNum 1), (''event_data'', JStr ''e'')])]\<rparr>,
            (\<lambda>p. Missing)(''db.json'' := Holds (JDict [(''ab-0'', JDict [(''timestamp'', JNum 1), (''event_data'', JStr ''e'')])])),
            [(INFO, ''Marked transaction ab-0 as processed.'')])"
    by (simp add: mark_as_processed_def has_processed_def save_db_def)
  have a: "Op_restart \<notin> set [Op_mark ''ab-1'' ''f'' 2 WriteFails]" by simp
  have b: "has_processed \<lparr>db_path = ''db.json'', db = JDict []\<rparr> ''ab-0'' = Inr False"
    by (simp add: has_processed_def)
  have c: "\<forall>x\<in>set [Op_mark ''ab-1'' ''f'' 2 OpenFails, Op_restart]. \<not> truncating x" by simp
  have d: "\<not> truncating (Op_mark ''ab-1'' ''f'' 2 OpenFails :: string op)"
    and e: "\<not> truncating (Op_restart :: string op)" by simp_all
  from has_processed_forever [OF first, of "[Op_mark ''ab-1'' ''f'' 2 WriteFails]"]
       has_processed_forever [OF first, of "[Op_mark ''ab-1'' ''f'' 2 OpenFails, Op_restart]"]
       first a b c d e
  show ?thesis by blast
qed

theorem has_processed_forever_counterexample:
  "mark_as_processed (\<lambda>e. e) \<lparr>db_path = ''db.json'', db = JDict []\<rparr> (\<lambda>p. Missing) 1 OpenFails ''ab-0'' ''e''
     = Inr (\<lparr>db_path = ''db.json'',
              db = JDict [(''ab-0'', JDict [(''timestamp'', JNum 1), (''event_data'', JStr ''e'')])]\<rparr>,
            (\<lambda>p. Missing),
            [(ERROR, ''Failed to save state database''), (INFO, ''Marked transaction ab-0 as processed.'')])
   \<and> (case run_ops (\<lambda>e. e)
          (\<lparr>db_path = ''db.json'',
              db = JDict [(''ab-0'', JDict [(''timestamp'', JNum 1), (''event_data'', JStr ''e'')])]\<rparr>,
           (\<lambda>p. Missing))
          [Op_restart :: string op] of
        Inl e \<Rightarrow> False
      | Inr (st2, fs2) \<Rightarrow> has_processed st2 ''ab-0'' = Inr False)"
  by (simp add: mark_as_processed_def has_processed_def save_db_def StateDB_init_def load_db_def)

section \<open>Traces of the processor\<close>

lemma calls_append [simp]: "calls (xs @ ys) = calls xs @ calls ys"
  by (simp add: calls_def)

lemma calls_Nil [simp]: "calls [] = []"
  by (simp add: calls_def)

lemma calls_Cons [simp]: "calls (x # xs) = (if is_call x then x # calls xs else calls xs)"
  by (simp add: calls_def)

lemma calls_logs [simp]: "calls (map (\<lambda>(l, m). Log l m) lg) = []"
  by (induction lg) auto

lemma set_calls: "x \<in> set (calls t) \<longleftrightarrow> x \<in> set t \<and> is_call x"
  by (simp add: calls_def)

lemma executes_append [simp]: "executes (xs @ ys) = executes xs + executes ys"
  by (simp add: executes_def)

lemma marks_append [simp]: "marks (xs @ ys) = marks xs + marks ys"
  by (simp add: marks_def)

lemma checked_append [simp]: "checked (xs @ ys) = checked xs @ checked ys"
  by (induction xs rule: checked.induct) simp_all

lemma checked_logs [simp]: "checked (map (\<lambda>(l, m). Log l m) lg) = []"
  by (induction lg) auto

lemma process_lock_event_replay:
  "has_processed st (event_identifier ev) = Inr True \<Longrightarrow>
   process_lock_event tca str_of st fs now fault ev =
     (Skipped_already_processed, st, fs,
      [Log INFO (''Processing event from transaction: '' @ hex (transactionHash ev)),
       Call_has_processed (event_identifier ev),
       Log WARNING (''Event '' @ event_identifier ev @ '' has already been processed. Skipping.'')])"
  by (simp add: process_lock_event_def Let_def)

text \<open>The three shapes a run of the processor on one event can have.\<close>

lemma process_lock_event_shape:
  assumes "process_lock_event tca str_of st fs now fault ev = (out, st', fs', t)"
  shows "(calls t = [Call_has_processed (event_identifier ev)] \<and> st' = st \<and> fs' = fs \<and> out \<noteq> Processed)
       \<or> (calls t = [Call_has_processed (event_identifier ev), Call_simulate_destination_tx (args ev)]
            \<and> st' = st \<and> fs' = fs \<and> has_processed st (event_identifier ev) = Inr False
            \<and> (\<exists>e. out = Raised e \<and> simulate_destination_tx tca (args ev) = Inl e))
       \<or> (calls t = [Call_has_processed (event_identifier ev), Call_simulate_destination_tx (args ev),
                      Return_simulate_destination_tx, Call_mark_as_processed (event_identifier ev)]
            \<and> has_processed st (event_identifier ev) = Inr False
            \<and> (\<exists>lg. simulate_destination_tx tca (args ev) = Inr lg)
            \<and> ((\<exists>e. out = Raised e \<and> st' = st \<and> fs' = fs
                      \<and> mark_as_processed str_of st fs now fault (event_identifier ev) (args ev) = Inl e)
               \<or> (\<exists>lg'. out = Processed
                      \<and> mark_as_processed str_of st fs now fault (event_identifier ev) (args ev)
                           = Inr (st', fs', lg'))))"
  using assms
  by (auto simp: process_lock_event_def Let_def
           split: sum.splits bool.splits if_splits option.splits pyval.splits prod.splits)

lemma process_lock_event_verdict:
  assumes "process_lock_event tca str_of st fs now fault ev = (out, st', fs', t)"
  shows "(has_processed st (event_identifier ev) = Inr True \<longrightarrow>
            out = Skipped_already_processed
            \<and> Log WARNING (''Event '' @ event_identifier ev @ '' has already been processed. Skipping.'') \<in> set t)
       \<and> (out = Skipped_malformed \<or> out = Skipped_not_positive \<longrightarrow>
            has_processed st (event_identifier ev) = Inr False)
       \<and> (Call_simulate_destination_tx (args ev) \<in> set t \<longrightarrow>
            list_all (\<lambda>k. k \<in> fst ` set (args ev)) [''sender'', ''token'', ''amount'', ''destinationChainId'']
            \<and> (\<exists>n. map_of (args ev) ''amount'' = Some (VInt n) \<and> 0 < n))"
  using assms
  by (auto simp: process_lock_event_def Let_def
           split: sum.splits bool.splits if_splits option.splits pyval.splits prod.splits)

lemma process_lock_event_checked:
  "process_lock_event tca str_of st fs now fault ev = (out, st', fs', t) \<Longrightarrow>
     checked t = [event_identifier ev]"
  by (auto simp: process_lock_event_def Let_def
           split: sum.splits bool.splits if_splits option.splits pyval.splits prod.splits)

lemma for_events_checked:
  "for_events tca str_of st fs batch = (r, st', fs', t) \<Longrightarrow>
     prefix (checked t) (map (\<lambda>x. event_identifier (fst x)) batch)
     \<and> (r = None \<longrightarrow> checked t = map (\<lambda>x. event_identifier (fst x)) batch)"
proof (induction batch arbitrary: st fs r st' fs' t)
  case Nil
  then show ?case by simp
next
  case (Cons x xs)
  obtain ev now fault where x: "x = (ev, now, fault)" by (cases x)
  obtain out st1 fs1 t1 where p: "process_lock_event tca str_of st fs now fault ev = (out, st1, fs1, t1)"
    by (cases "process_lock_event tca str_of st fs now fault ev")
  then have c: "checked t1 = [event_identifier ev]" by (rule process_lock_event_checked)
  show ?case
  proof (cases "\<exists>e. out = Raised e")
    case True
    with Cons.prems x p c show ?thesis by auto
  next
    case False
    obtain r2 st2 fs2 t2 where f: "for_events tca str_of st1 fs1 xs = (r2, st2, fs2, t2)"
      by (cases "for_events tca str_of st1 fs1 xs")
    from False p f x Cons.prems have "t = t1 @ t2" "r = r2"
      by (cases out; simp)+
    with Cons.IH [OF f] c x show ?thesis by simp
  qed
qed

lemma for_events_replay:
  "\<forall>x\<in>set batch. has_processed st (event_identifier (fst x)) = Inr True \<Longrightarrow>
     \<exists>t. for_events tca str_of st fs batch = (None, st, fs, t) \<and> executes t = 0 \<and> marks t = 0"
proof (induction batch)
  case Nil
  then show ?case by (simp add: executes_def marks_def)
next
  case (Cons x xs)
  obtain ev now fault where x: "x = (ev, now, fault)" by (cases x)
  with Cons.prems have h: "has_processed st (event_identifier ev) = Inr True" by simp
  from Cons obtain t where t: "for_events tca str_of st fs xs = (None, st, fs, t)"
    "executes t = 0" "marks t = 0" by auto
  with x process_lock_event_replay [OF h, of tca str_of fs now fault]
  show ?case by (simp add: executes_def marks_def)
qed

section \<open>How a batch runs\<close>

lemma for_events_raise:
  "process_lock_event tca str_of st fs now fault ev = (Raised e, st1, fs1, t1) \<Longrightarrow>
   for_events tca str_of st fs ((ev, now, fault) # rest) = (Some e, st1, fs1, t1)"
  by simp

lemma for_events_ok:
  "process_lock_event tca str_of st fs now fault ev = (out, st1, fs1, t1) \<Longrightarrow>
   \<forall>e. out \<noteq> Raised e \<Longrightarrow>
   for_events tca str_of st1 fs1 rest = (r, st2, fs2, t2) \<Longrightarrow>
   for_events tca str_of st fs ((ev, now, fault) # rest) = (r, st2, fs2, t1 @ t2)"
  by (cases out) simp_all

lemma for_events_Cons:
  assumes "for_events tca str_of st fs ((ev, now, fault) # rest) = (r, st2, fs2, t2)"
  shows "(\<exists>e. process_lock_event tca str_of st fs now fault ev = (Raised e, st2, fs2, t2) \<and> r = Some e)
       \<or> (\<exists>out sa fa ta tb.
             process_lock_event tca str_of st fs now fault ev = (out, sa, fa, ta)
             \<and> (\<forall>e. out \<noteq> Raised e)
             \<and> for_events tca str_of sa fa rest = (r, st2, fs2, tb)
             \<and> t2 = ta @ tb)"
proof -
  obtain out sa fa ta where p: "process_lock_event tca str_of st fs now fault ev = (out, sa, fa, ta)"
    by (cases "process_lock_event tca str_of st fs now fault ev")
  obtain rb sb fb tb where f: "for_events tca str_of sa fa rest = (rb, sb, fb, tb)"
    by (cases "for_events tca str_of sa fa rest")
  show ?thesis
  proof (cases "\<exists>e. out = Raised e")
    case True
    then obtain e where "out = Raised e" by blast
    with p assms show ?thesis by simp
  next
    case False
    then have nr: "\<forall>e. out \<noteq> Raised e" by blast
    from for_events_ok [OF p nr f] assms
    have "r = rb" "st2 = sb" "fs2 = fb" "t2 = ta @ tb" by simp_all
    with p nr f show ?thesis by blast
  qed
qed

lemma for_events_append:
  "for_events tca str_of st fs pre = (None, st1, fs1, t1) \<Longrightarrow>
   for_events tca str_of st1 fs1 post = (r, st2, fs2, t2) \<Longrightarrow>
   for_events tca str_of st fs (pre @ post) = (r, st2, fs2, t1 @ t2)"
proof (induction pre arbitrary: st fs t1)
  case Nil
  then show ?case by simp
next
  case (Cons x xs)
  obtain ev now fault where x: "x = (ev, now, fault)" by (cases x)
  from Cons.prems(1) x
  have "for_events tca str_of st fs ((ev, now, fault) # xs) = (None, st1, fs1, t1)" by simp
  from for_events_Cons [OF this] obtain out sa fa ta tb where
    p: "process_lock_event tca str_of st fs now fault ev = (out, sa, fa, ta)"
    and nr: "\<forall>e. out \<noteq> Raised e"
    and f: "for_events tca str_of sa fa xs = (None, st1, fs1, tb)" and t1: "t1 = ta @ tb"
    by blast
  from Cons.IH [OF f Cons.prems(2)]
  have "for_events tca str_of sa fa (xs @ post) = (r, st2, fs2, tb @ t2)" .
  from for_events_ok [OF p nr this] x t1 show ?case by simp
qed

lemma for_events_raised:
  "for_events tca str_of st fs batch = (Some e, st2, fs2, t2) \<Longrightarrow>
   \<exists>pre ev now fault post s1 f1 t1 tx.
      batch = pre @ (ev, now, fault) # post
      \<and> for_events tca str_of st fs pre = (None, s1, f1, t1)
      \<and> process_lock_event tca str_of s1 f1 now fault ev = (Raised e, st2, fs2, tx)
      \<and> t2 = t1 @ tx"
proof (induction batch arbitrary: st fs t2)
  case Nil
  then show ?case by simp
next
  case (Cons x xs)
  obtain ev now fault where x: "x = (ev, now, fault)" by (cases x)
  from Cons.prems x
  have "for_events tca str_of st fs ((ev, now, fault) # xs) = (Some e, st2, fs2, t2)" by simp
  from for_events_Cons [OF this] show ?case
  proof
    assume "\<exists>e'. process_lock_event tca str_of st fs now fault ev = (Raised e', st2, fs2, t2) \<and> Some e = Some e'"
    then have "process_lock_event tca str_of st fs now fault ev = (Raised e, st2, fs2, t2)" by auto
    moreover have "for_events tca str_of st fs [] = (None, st, fs, [])" by simp
    moreover have "x # xs = [] @ (ev, now, fault) # xs" using x by simp
    moreover have "t2 = [] @ t2" by simp
    ultimately show ?thesis by blast
  next
    assume "\<exists>out sa fa ta tb.
             process_lock_event tca str_of st fs now fault ev = (out, sa, fa, ta)
             \<and> (\<forall>e. out \<noteq> Raised e)
             \<and> for_events tca str_of sa fa xs = (Some e, st2, fs2, tb)
             \<and> t2 = ta @ tb"
    then obtain out sa fa ta tb where
      p: "process_lock_event tca str_of st fs now fault ev = (out, sa, fa, ta)"
      and nr: "\<forall>e. out \<noteq> Raised e"
      and f: "for_events tca str_of sa fa xs = (Some e, st2, fs2, tb)" and t2: "t2 = ta @ tb"
      by blast
    from Cons.IH [OF f] obtain pre ev' now' fault' post s1 f1 t1 tx where
      xs: "xs = pre @ (ev', now', fault') # post"
      and pre: "for_events tca str_of sa fa pre = (None, s1, f1, t1)"
      and run: "process_lock_event tca str_of s1 f1 now' fault' ev' = (Raised e, st2, fs2, tx)"
      and tb: "tb = t1 @ tx"
      by blast
    from for_events_ok [OF p nr pre]
    have "for_events tca str_of st fs ((ev, now, fault) # pre) = (None, s1, f1, ta @ t1)" .
    moreover have "x # xs = ((ev, now, fault) # pre) @ (ev', now', fault') # post"
      using x xs by simp
    moreover have "t2 = (ta @ t1) @ tx" using t2 tb by simp
    ultimately show ?thesis using run by blast
  qed
qed

lemma for_events_prefix_ok:
  "for_events tca str_of st fs (pre @ post) = (None, st2, fs2, t2) \<Longrightarrow>
   \<exists>s1 f1 t1 t'. for_events tca str_of st fs pre = (None, s1, f1, t1)
      \<and> for_events tca str_of s1 f1 post = (None, st2, fs2, t') \<and> t2 = t1 @ t'"
proof (induction pre arbitrary: st fs t2)
  case Nil
  then show ?case by simp
next
  case (Cons x xs)
  obtain ev now fault where x: "x = (ev, now, fault)" by (cases x)
  from Cons.prems x
  have "for_events tca str_of st fs ((ev, now, fault) # (xs @ post)) = (None, st2, fs2, t2)" by simp
  from for_events_Cons [OF this] obtain out sa fa ta tb where
    p: "process_lock_event tca str_of st fs now fault ev = (out, sa, fa, ta)"
    and nr: "\<forall>e. out \<noteq> Raised e"
    and f: "for_events tca str_of sa fa (xs @ post) = (None, st2, fs2, tb)" and t2: "t2 = ta @ tb"
    by blast
  from Cons.IH [OF f] obtain s1 f1 t1 t' where
    a: "for_events tca str_of sa fa xs = (None, s1, f1, t1)"
    and b: "for_events tca str_of s1 f1 post = (None, st2, fs2, t')" and c: "tb = t1 @ t'"
    by blast
  from for_events_ok [OF p nr a] x
  have "for_events tca str_of st fs (x # xs) = (None, s1, f1, ta @ t1)" by simp
  with b c t2 show ?case by simp
qed

lemma for_events_all_handled:
  assumes "for_events tca str_of st fs batch = (None, st2, fs2, t2)"
    and "batch = pre @ (ev, now, fault) # post"
  shows "\<exists>s1 f1 t1 out s' f' tx.
      for_events tca str_of st fs pre = (None, s1, f1, t1)
      \<and> process_lock_event tca str_of s1 f1 now fault ev = (out, s', f', tx)
      \<and> (\<forall>e. out \<noteq> Raised e)
      \<and> for_events tca str_of st fs (pre @ [(ev, now, fault)]) = (None, s', f', t1 @ tx)"
proof -
  from assms have "for_events tca str_of st fs (pre @ ((ev, now, fault) # post)) = (None, st2, fs2, t2)"
    by simp
  from for_events_prefix_ok [OF this] obtain s1 f1 t1 t' where
    a: "for_events tca str_of st fs pre = (None, s1, f1, t1)"
    and b: "for_events tca str_of s1 f1 ((ev, now, fault) # post) = (None, st2, fs2, t')"
    by blast
  from for_events_Cons [OF b] obtain out s' f' tx tb where
    p: "process_lock_event tca str_of s1 f1 now fault ev = (out, s', f', tx)"
    and nr: "\<forall>e. out \<noteq> Raised e"
    by blast
  have "for_events tca str_of s' f' [] = (None, s', f', [])" by simp
  from for_events_ok [OF p nr this]
  have "for_events tca str_of s1 f1 [(ev, now, fault)] = (None, s', f', tx)" by simp
  from for_events_append [OF a this] a p nr show ?thesis by blast
qed

section \<open>Sample runs\<close>

lemma key_01_0: "event_identifier \<lparr>transactionHash = [0x01], logIndex = 0, args = a\<rparr> = ''01-0''"
  by (simp add: event_identifier_def hex_def hex_digit_def str_int_def str_nat.simps digit_def)

lemma key_01_1: "event_identifier \<lparr>transactionHash = [0x01], logIndex = 1, args = a\<rparr> = ''01-1''"
  by (simp add: event_identifier_def hex_def hex_digit_def str_int_def str_nat.simps digit_def)

lemma hex_01: "hex [0x01] = ''01''"
  by (simp add: hex_def hex_digit_def)

lemma run_valid_event:
  "process_lock_event (\<lambda>v. Inr '''') (\<lambda>a. ''s'') \<lparr>db_path = ''db.json'', db = JDict []\<rparr> (\<lambda>p. Missing) 3 NoFault
     \<lparr>transactionHash = [0x01], logIndex = 0,
       args = [(''sender'', VStr ''a''), (''token'', VStr ''t''), (''amount'', VInt 50),
               (''destinationChainId'', VInt 2), (''recipient'', VBytes [])]\<rparr>
   = (Processed,
      \<lparr>db_path = ''db.json'',
        db = JDict [(''01-0'', JDict [(''timestamp'', JNum 3), (''event_data'', JStr ''s'')])]\<rparr>,
      (\<lambda>p. Missing)(''db.json'' := Holds (JDict [(''01-0'', JDict [(''timestamp'', JNum 3), (''event_data'', JStr ''s'')])])),
      [Log INFO ''Processing event from transaction: 01'',
       Call_has_processed ''01-0'',
       Log INFO ''Event valid. Simulating minting transaction.'',
       Call_simulate_destination_tx
         [(''sender'', VStr ''a''), (''token'', VStr ''t''), (''amount'', VInt 50),
          (''destinationChainId'', VInt 2), (''recipient'', VBytes [])],
       Log INFO ''[SIMULATION] Creating destination transaction'',
       Log INFO ''[SIMULATION] Destination transaction sent and confirmed.'',
       Return_simulate_destination_tx,
       Call_mark_as_processed ''01-0'',
       Log INFO ''Marked transaction 01-0 as processed.'',
       Log INFO ''Successfully processed and marked event 01-0.''])"
  by (simp add: process_lock_event_def Let_def key_01_0 hex_01 has_processed_def simulate_destination_tx_def
                mark_as_processed_def save_db_def)

lemma run_malformed_event:
  "process_lock_event (\<lambda>v. Inr '''') (\<lambda>a. ''s'') \<lparr>db_path = ''db.json'', db = JDict []\<rparr> (\<lambda>p. Missing) 3 NoFault
     \<lparr>transactionHash = [0x01], logIndex = 0, args = []\<rparr>
   = (Skipped_malformed, \<lparr>db_path = ''db.json'', db = JDict []\<rparr>, (\<lambda>p. Missing),
      [Log INFO ''Processing event from transaction: 01'',
       Call_has_processed ''01-0'',
       Log ERROR ''Malformed event 01-0: missing required arguments. Skipping.''])"
  by (simp add: process_lock_event_def Let_def key_01_0 hex_01 has_processed_def)

lemma run_batch:
  "for_events (\<lambda>v. Inr '''') (\<lambda>a. ''s'') \<lparr>db_path = ''db.json'', db = JDict []\<rparr> (\<lambda>p. Missing)
     [(\<lparr>transactionHash = [0x01], logIndex = 0,
         args = [(''sender'', VStr ''a''), (''token'', VStr ''t''), (''amount'', VInt 50),
                 (''destinationChainId'', VInt 2), (''recipient'', VBytes [])]\<rparr>, 3, NoFault),
      (\<lparr>transactionHash = [0x01], logIndex = 1,
         args = [(''sender'', VStr ''a''), (''token'', VStr ''t''), (''amount'', VInt 75),
                 (''destinationChainId'', VInt 2), (''recipient'', VBytes [])]\<rparr>, 3, NoFault)]
   = (None,
      \<lparr>db_path = ''db.json'',
        db = JDict [(''01-0'', JDict [(''timestamp'', JNum 3), (''event_data'', JStr ''s'')]),
                    (''01-1'', JDict [(''timestamp'', JNum 3), (''event_data'', JStr ''s'')])]\<rparr>,
      (\<lambda>p. Missing)(''db.json'' := Holds (JDict
                   [(''01-0'', JDict [(''timestamp'', JNum 3), (''event_data'', JStr ''s'')]),
                    (''01-1'', JDict [(''timestamp'', JNum 3), (''event_data'', JStr ''s'')])])),
      [Log INFO ''Processing event from transaction: 01'',
       Call_has_processed ''01-0'',
       Log INFO ''Event valid. Simulating minting transaction.'',
       Call_simulate_destination_tx
         [(''sender'', VStr ''a''), (''token'', VStr ''t''), (''amount'', VInt 50),
          (''destinationChainId'', VInt 2), (''recipient'', VBytes [])],
       Log INFO ''[SIMULATION] Creating destination transaction'',
       Log INFO ''[SIMULATION] Destination transaction sent and confirmed.'',
       Return_simulate_destination_tx,
       Call_mark_as_processed ''01-0'',
       Log INFO ''Marked transaction 01-0 as processed.'',
       Log INFO ''Successfully processed and marked event 01-0.'',
       Log INFO ''Processing event from transaction: 01'',
       Call_has_processed ''01-1'',
       Log INFO ''Event valid. Simulating minting transaction.'',
       Call_simulate_destination_tx
         [(''sender'', VStr ''a''), (''token'', VStr ''t''), (''amount'', VInt 75),
          (''destinationChainId'', VInt 2), (''recipient'', VBytes [])],
       Log INFO ''[SIMULATION] Creating destination transaction'',
       Log INFO ''[SIMULATION] Destination transaction sent and confirmed.'',
       Return_simulate_destination_tx,
       Call_mark_as_processed ''01-1'',
       Log INFO ''Marked transaction 01-1 as processed.'',
       Log INFO ''Successfully processed and marked event 01-1.''])"
  by (simp add: process_lock_event_def Let_def key_01_0 key_01_1 hex_01 has_processed_def
                simulate_destination_tx_def mark_as_processed_def save_db_def)

lemma run_raising_batch:
  "for_events (\<lambda>v. Inr '''') (\<lambda>a. ''s'') \<lparr>db_path = ''db.json'', db = JDict []\<rparr> (\<lambda>p. Missing)
     [(\<lparr>transactionHash = [0x01], logIndex = 0,
         args = [(''sender'', VStr ''a''), (''token'', VStr ''t''), (''amount'', VStr ''x''),
                 (''destinationChainId'', VInt 2), (''recipient'', VBytes [])]\<rparr>, 3, NoFault),
      (\<lparr>transactionHash = [0x01], logIndex = 1,
         args = [(''sender'', VStr ''a''), (''token'', VStr ''t''), (''amount'', VInt 75),
                 (''destinationChainId'', VInt 2), (''recipient'', VBytes [])]\<rparr>, 3, NoFault)]
   = (Some TypeError, \<lparr>db_path = ''db.json'', db = JDict []\<rparr>, (\<lambda>p. Missing),
      [Log INFO ''Processing event from transaction: 01'', Call_has_processed ''01-0''])"
  by (simp add: process_lock_event_def Let_def key_01_0 hex_01 has_processed_def)

section \<open>Replay protection\<close>

text \<open>
  C2. For an event whose key is already recorded in the state store,
  \<^verbatim>\<open>process_lock_event\<close> returns after the lookup: it makes no call of the
  destination-chain simulation and no call of \<^verbatim>\<open>mark_as_processed\<close>, and leaves the store
  and the file unchanged.  Hence a batch that re-delivers only recorded events runs to
  its end with no execute call and the store unchanged.
\<close>

theorem already_recorded_event_is_skipped:
  "(has_processed st (event_identifier ev) = Inr True \<longrightarrow>
      (\<exists>t. process_lock_event tca str_of st fs now fault ev = (Skipped_already_processed, st, fs, t)
           \<and> executes t = 0 \<and> marks t = 0))
   \<and> ((\<forall>x\<in>set batch. has_processed st (event_identifier (fst x)) = Inr True) \<longrightarrow>
      (\<exists>t. for_events tca str_of st fs batch = (None, st, fs, t) \<and> executes t = 0 \<and> marks t = 0)
      \<and> (\<exists>t. poll_cycle tca str_of st fs batch = (st, fs, t) \<and> executes t = 0 \<and> marks t = 0))"
proof -
  have one: "\<exists>t. process_lock_event tca str_of st fs now fault ev = (Skipped_already_processed, st, fs, t)
           \<and> executes t = 0 \<and> marks t = 0"
    if "has_processed st (event_identifier ev) = Inr True"
    using that by (simp add: process_lock_event_replay executes_def marks_def)
  have loop: "\<exists>t. for_events tca str_of st fs batch = (None, st, fs, t) \<and> executes t = 0 \<and> marks t = 0"
    if "\<forall>x\<in>set batch. has_processed st (event_identifier (fst x)) = Inr True"
    using that by (rule for_events_replay)
  have cycle: "\<exists>t. poll_cycle tca str_of st fs batch = (st, fs, t) \<and> executes t = 0 \<and> marks t = 0"
    if "\<forall>x\<in>set batch. has_processed st (event_identifier (fst x)) = Inr True"
  proof (cases "batch = []")
    case True
    then show ?thesis by (simp add: poll_cycle_def executes_def marks_def)
  next
    case False
    with loop [OF that] show ?thesis by (auto simp: poll_cycle_def)
  qed
  from one loop cycle show ?thesis by blast
qed

theorem already_recorded_event_is_skipped_witness:
  "has_processed \<lparr>db_path = ''db.json'', db = JDict [(''01-0'', JDict []), (''01-1'', JDict [])]\<rparr>
     (event_identifier \<lparr>transactionHash = [0x01], logIndex = 0, args = [(''amount'', VInt 50)]\<rparr>) = Inr True
   \<and> has_processed \<lparr>db_path = ''db.json'', db = JDict [(''01-0'', JDict []), (''01-1'', JDict [])]\<rparr>
     (event_identifier \<lparr>transactionHash = [0x01], logIndex = 1, args = [(''amount'', VInt 75)]\<rparr>) = Inr True
   \<and> (\<exists>t. process_lock_event (\<lambda>v. Inr '''') (\<lambda>a. ''s'')
             \<lparr>db_path = ''db.json'', db = JDict [(''01-0'', JDict []), (''01-1'', JDict [])]\<rparr> (\<lambda>p. Missing) 3 NoFault
             \<lparr>transactionHash = [0x01], logIndex = 0, args = [(''amount'', VInt 50)]\<rparr>
           = (Skipped_already_processed,
              \<lparr>db_path = ''db.json'', db = JDict [(''01-0'', JDict []), (''01-1'', JDict [])]\<rparr>, (\<lambda>p. Missing), t)
         \<and> executes t = 0 \<and> marks t = 0)
   \<and> (\<exists>t. for_events (\<lambda>v. Inr '''') (\<lambda>a. ''s'')
             \<lparr>db_path = ''db.json'', db = JDict [(''01-0'', JDict []), (''01-1'', JDict [])]\<rparr> (\<lambda>p. Missing)
             [(\<lparr>transactionHash = [0x01], logIndex = 0, args = [(''amount'', VInt 50)]\<rparr>, 3, NoFault),
              (\<lparr>transactionHash = [0x01], logIndex = 1, args = [(''amount'', VInt 75)]\<rparr>, 3, NoFault)]
           = (None, \<lparr>db_path = ''db.json'', db = JDict [(''01-0'', JDict []), (''01-1'', JDict [])]\<rparr>, (\<lambda>p. Missing), t)
         \<and> executes t = 0 \<and> marks t = 0)
   \<and> (\<exists>t. poll_cycle (\<lambda>v. Inr '''') (\<lambda>a. ''s'')
             \<lparr>db_path = ''db.json'', db = JDict [(''01-0'', JDict []), (''01-1'', JDict [])]\<rparr> (\<lambda>p. Missing)
             [(\<lparr>transactionHash = [0x01], logIndex = 0, args = [(''amount'', VInt 50)]\<rparr>, 3, NoFault),
              (\<lparr>transactionHash = [0x01], logIndex = 1, args = [(''amount'', VInt 75)]\<rparr>, 3, NoFault)]
           = (\<lparr>db_path = ''db.json'', db = JDict [(''01-0'', JDict []), (''01-1'', JDict [])]\<rparr>, (\<lambda>p. Missing), t)
         \<and> executes t = 0 \<and> marks t = 0)"
proof -
  have a: "has_processed \<lparr>db_path = ''db.json'', db = JDict [(''01-0'', JDict []), (''01-1'', JDict [])]\<rparr>
     (event_identifier \<lparr>transactionHash = [0x01], logIndex = 0, args = [(''amount'', VInt 50)]\<rparr>) = Inr True"
    by (simp add: key_01_0 has_processed_def)
  have b: "has_processed \<lparr>db_path = ''db.json'', db = JDict [(''01-0'', JDict []), (''01-1'', JDict [])]\<rparr>
     (event_identifier \<lparr>transactionHash = [0x01], logIndex = 1, args = [(''amount'', VInt 75)]\<rparr>) = Inr True"
    by (simp add: key_01_1 has_processed_def)
  from already_recorded_event_is_skipped
         [of "\<lparr>db_path = ''db.json'', db = JDict [(''01-0'', JDict []), (''01-1'', JDict [])]\<rparr>"
             "\<lparr>transactionHash = [0x01], logIndex = 0, args = [(''amount'', VInt 50)]\<rparr>"
             "\<lambda>v. Inr ''''" "\<lambda>a. ''s''" "\<lambda>p. Missing" 3 NoFault
             "[(\<lparr>transactionHash = [0x01], logIndex = 0, args = [(''amount'', VInt 50)]\<rparr>, 3, NoFault),
               (\<lparr>transactionHash = [0x01], logIndex = 1, args = [(''amount'', VInt 75)]\<rparr>, 3, NoFault)]"]
       a b
  show ?thesis by simp
qed

section \<open>Validation\<close>

text \<open>
  C5. For an event whose amount is an integer \<open>\<le> 0\<close>, \<^verbatim>\<open>process_lock_event\<close> makes no
  call of the destination-chain simulation and none of \<^verbatim>\<open>mark_as_processed\<close>, and
  changes nothing.  When the event reaches the validation (its key is not recorded and
  the checked arguments are present), the verdict is the non-positive-amount one: the
  processing stops with the error line about the lock amount.
\<close>

theorem non_positive_amount_is_skipped:
  assumes amount: "map_of (args ev) ''amount'' = Some (VInt n)" and np: "n \<le> 0"
  shows "\<exists>out t. process_lock_event tca str_of st fs now fault ev = (out, st, fs, t)
           \<and> executes t = 0 \<and> marks t = 0
           \<and> (has_processed st (event_identifier ev) = Inr False
                \<and> list_all (\<lambda>k. k \<in> fst ` set (args ev)) [''sender'', ''token'', ''amount'', ''destinationChainId'']
              \<longrightarrow> out = Skipped_not_positive
                  \<and> t = [Log INFO (''Processing event from transaction: '' @ hex (transactionHash ev)),
                         Call_has_processed (event_identifier ev),
                         Log ERROR (''Invalid event '' @ event_identifier ev @ '': lock amount must be positive. Skipping.'')])"
  using amount np
  by (auto simp: process_lock_event_def Let_def executes_def marks_def
           split: sum.splits bool.splits)

theorem non_positive_amount_is_skipped_witness:
  "map_of (args \<lparr>transactionHash = [0x01], logIndex = 0,
                  args = [(''sender'', VStr ''a''), (''token'', VStr ''t''), (''amount'', VInt 0),
                          (''destinationChainId'', VInt 2), (''recipient'', VBytes [])]\<rparr>) ''amount'' = Some (VInt 0)
   \<and> (0::int) \<le> 0
   \<and> has_processed \<lparr>db_path = ''db.json'', db = JDict []\<rparr>
        (event_identifier \<lparr>transactionHash = [0x01], logIndex = 0,
                  args = [(''sender'', VStr ''a''), (''token'', VStr ''t''), (''amount'', VInt 0),
                          (''destinationChainId'', VInt 2), (''recipient'', VBytes [])]\<rparr>) = Inr False
   \<and> list_all (\<lambda>k. k \<in> fst ` set (args \<lparr>transactionHash = [0x01], logIndex = 0,
                  args = [(''sender'', VStr ''a''), (''token'', VStr ''t''), (''amount'', VInt 0),
                          (''destinationChainId'', VInt 2), (''recipient'', VBytes [])]\<rparr>))
        [''sender'', ''token'', ''amount'', ''destinationChainId'']
   \<and> (\<exists>t. process_lock_event (\<lambda>v. Inr '''') (\<lambda>a. ''s'') \<lparr>db_path = ''db.json'', db = JDict []\<rparr> (\<lambda>p. Missing) 3 NoFault
            \<lparr>transactionHash = [0x01], logIndex = 0,
                  args = [(''sender'', VStr ''a''), (''token'', VStr ''t''), (''amount'', VInt 0),
                          (''destinationChainId'', VInt 2), (''recipient'', VBytes [])]\<rparr>
          = (Skipped_not_positive, \<lparr>db_path = ''db.json'', db = JDict []\<rparr>, (\<lambda>p. Missing), t)
        \<and> executes t = 0 \<and> marks t = 0)"
proof -
  have a: "map_of (args \<lparr>transactionHash = [0x01], logIndex = 0,
                  args = [(''sender'', VStr ''a''), (''token'', VStr ''t''), (''amount'', VInt 0),
                          (''destinationChainId'', VInt 2), (''recipient'', VBytes [])]\<rparr>) ''amount'' = Some (VInt 0)"
    by simp
  have b: "(0::int) \<le> 0" by simp
  have c: "has_processed \<lparr>db_path = ''db.json'', db = JDict []\<rparr>
        (event_identifier \<lparr>transactionHash = [0x01], logIndex = 0,
                  args = [(''sender'', VStr ''a''), (''token'', VStr ''t''), (''amount'', VInt 0),
                          (''destinationChainId'', VInt 2), (''recipient'', VBytes [])]\<rparr>) = Inr False"
    by (simp add: has_processed_def)
  have d: "list_all (\<lambda>k. k \<in> fst ` set (args \<lparr>transactionHash = [0x01], logIndex = 0,
                  args = [(''sender'', VStr ''a''), (''token'', VStr ''t''), (''amount'', VInt 0),
                          (''destinationChainId'', VInt 2), (''recipient'', VBytes [])]\<rparr>))
        [''sender'', ''token'', ''amount'', ''destinationChainId'']"
    by simp
  from non_positive_amount_is_skipped [OF a b, of "\<lambda>v. Inr ''''" "\<lambda>a. ''s''"
         "\<lparr>db_path = ''db.json'', db = JDict []\<rparr>" "\<lambda>p. Missing" 3 NoFault] a b c d
  show ?thesis by blast
qed

text \<open>
  An event that lacks one of the four checked arguments causes no call of the
  destination-chain simulation and none of \<^verbatim>\<open>mark_as_processed\<close>, and changes
  nothing; when its key is not recorded it is skipped as malformed.
\<close>

theorem missing_checked_field_is_skipped:
  assumes "k \<in> set [''sender'', ''token'', ''amount'', ''destinationChainId'']"
    and "k \<notin> fst ` set (args ev)"
  shows "\<exists>out t. process_lock_event tca str_of st fs now fault ev = (out, st, fs, t)
           \<and> executes t = 0 \<and> marks t = 0
           \<and> (has_processed st (event_identifier ev) = Inr False \<longrightarrow>
                out = Skipped_malformed
                \<and> t = [Log INFO (''Processing event from transaction: '' @ hex (transactionHash ev)),
                       Call_has_processed (event_identifier ev),
                       Log ERROR (''Malformed event '' @ event_identifier ev @ '': missing required arguments. Skipping.'')])"
proof -
  from assms have "\<not> list_all (\<lambda>k. k \<in> fst ` set (args ev)) [''sender'', ''token'', ''amount'', ''destinationChainId'']"
    by auto
  then show ?thesis
    by (auto simp: process_lock_event_def Let_def executes_def marks_def split: sum.splits bool.splits)
qed

theorem missing_checked_field_is_skipped_witness:
  "''token'' \<in> set [''sender'', ''token'', ''amount'', ''destinationChainId'']
   \<and> ''token'' \<notin> fst ` set (args \<lparr>transactionHash = [0x01], logIndex = 0,
                                   args = [(''sender'', VStr ''a''), (''amount'', VInt 50),
                                           (''destinationChainId'', VInt 2), (''recipient'', VBytes [])]\<rparr>)
   \<and> has_processed \<lparr>db_path = ''db.json'', db = JDict []\<rparr>
        (event_identifier \<lparr>transactionHash = [0x01], logIndex = 0,
                                   args = [(''sender'', VStr ''a''), (''amount'', VInt 50),
                                           (''destinationChainId'', VInt 2), (''recipient'', VBytes [])]\<rparr>) = Inr False
   \<and> (\<exists>t. process_lock_event (\<lambda>v. Inr '''') (\<lambda>a. ''s'') \<lparr>db_path = ''db.json'', db = JDict []\<rparr> (\<lambda>p. Missing) 3 NoFault
            \<lparr>transactionHash = [0x01], logIndex = 0,
                                   args = [(''sender'', VStr ''a''), (''amount'', VInt 50),
                                           (''destinationChainId'', VInt 2), (''recipient'', VBytes [])]\<rparr>
          = (Skipped_malformed, \<lparr>db_path = ''db.json'', db = JDict []\<rparr>, (\<lambda>p. Missing), t)
        \<and> executes t = 0 \<and> marks t = 0)"
proof -
  have a: "''token'' \<in> set [''sender'', ''token'', ''amount'', ''destinationChainId'']" by simp
  have b: "''token'' \<notin> fst ` set (args \<lparr>transactionHash = [0x01], logIndex = 0,
                                   args = [(''sender'', VStr ''a''), (''amount'', VInt 50),
                                           (''destinationChainId'', VInt 2), (''recipient'', VBytes [])]\<rparr>)"
    by simp
  have c: "has_processed \<lparr>db_path = ''db.json'', db = JDict []\<rparr>
        (event_identifier \<lparr>transactionHash = [0x01], logIndex = 0,
                                   args = [(''sender'', VStr ''a''), (''amount'', VInt 50),
                                           (''destinationChainId'', VInt 2), (''recipient'', VBytes [])]\<rparr>) = Inr False"
    by (simp add: has_processed_def)
  from missing_checked_field_is_skipped [OF a b, of "\<lambda>v. Inr ''''" "\<lambda>a. ''s''"
         "\<lparr>db_path = ''db.json'', db = JDict []\<rparr>" "\<lambda>p. Missing" 3 NoFault] a b c
  show ?thesis by blast
qed

text \<open>
  C4. The validation checks \<^verbatim>\<open>sender\<close>, \<^verbatim>\<open>token\<close>, \<^verbatim>\<open>amount\<close> and
  \<^verbatim>\<open>destinationChainId\<close>, not \<^verbatim>\<open>recipient\<close>.  An event that lacks only the recipient
  passes it: the destination-chain simulation is called and raises
  \<^verbatim>\<open>KeyError('recipient')\<close>, which also ends the batch before its next event.  The
  sender is a well-formed address without letters, whose checksum form is the address
  itself.
\<close>

theorem missing_recipient_reaches_execute:
  "process_lock_event (\<lambda>v. case v of VStr s \<Rightarrow> Inr s | _ \<Rightarrow> Inl TypeError) (\<lambda>a. ''s'') \<lparr>db_path = ''db.json'', db = JDict []\<rparr> (\<lambda>p. Missing) 3 NoFault
     \<lparr>transactionHash = [0x01], logIndex = 0,
       args = [(''sender'', VStr ''0x0000000000000000000000000000000000000001''), (''token'', VStr ''t''), (''amount'', VInt 50),
               (''destinationChainId'', VInt 2)]\<rparr>
   = (Raised (KeyError ''recipient''), \<lparr>db_path = ''db.json'', db = JDict []\<rparr>, (\<lambda>p. Missing),
      [Log INFO ''Processing event from transaction: 01'',
       Call_has_processed ''01-0'',
       Log INFO ''Event valid. Simulating minting transaction.'',
       Call_simulate_destination_tx
         [(''sender'', VStr ''0x0000000000000000000000000000000000000001''), (''token'', VStr ''t''), (''amount'', VInt 50),
          (''destinationChainId'', VInt 2)]])
   \<and> for_events (\<lambda>v. case v of VStr s \<Rightarrow> Inr s | _ \<Rightarrow> Inl TypeError) (\<lambda>a. ''s'') \<lparr>db_path = ''db.json'', db = JDict []\<rparr> (\<lambda>p. Missing)
       [(\<lparr>transactionHash = [0x01], logIndex = 0,
           args = [(''sender'', VStr ''0x0000000000000000000000000000000000000001''), (''token'', VStr ''t''), (''amount'', VInt 50),
                   (''destinationChainId'', VInt 2)]\<rparr>, 3, NoFault),
        (\<lparr>transactionHash = [0x01], logIndex = 1,
           args = [(''sender'', VStr ''0x0000000000000000000000000000000000000001''), (''token'', VStr ''t''), (''amount'', VInt 75),
                   (''destinationChainId'', VInt 2), (''recipient'', VBytes [])]\<rparr>, 3, NoFault)]
   = (Some (KeyError ''recipient''), \<lparr>db_path = ''db.json'', db = JDict []\<rparr>, (\<lambda>p. Missing),
      [Log INFO ''Processing event from transaction: 01'',
       Call_has_processed ''01-0'',
       Log INFO ''Event valid. Simulating minting transaction.'',
       Call_simulate_destination_tx
         [(''sender'', VStr ''0x0000000000000000000000000000000000000001''), (''token'', VStr ''t''), (''amount'', VInt 50),
          (''destinationChainId'', VInt 2)]])"
  by (simp add: process_lock_event_def Let_def key_01_0 hex_01 has_processed_def simulate_destination_tx_def)

section \<open>Execute, then commit\<close>

text \<open>
  C6. In every run of \<^verbatim>\<open>process_lock_event\<close>, \<^verbatim>\<open>mark_as_processed\<close> is called only after
  \<^verbatim>\<open>_simulate_destination_tx\<close> has been called and has returned normally: a trace with
  the commit call has exactly the calls lookup, execute, return of execute, commit, in
  this order, for the key of the event.  Every other run leaves the store and the file
  as they were.
\<close>

theorem commit_only_after_execute:
  assumes p: "process_lock_event tca str_of st fs now fault ev = (out, st', fs', t)"
  shows "(Call_mark_as_processed k \<in> set t \<longrightarrow>
            k = event_identifier ev
            \<and> (\<exists>lg. simulate_destination_tx tca (args ev) = Inr lg)
            \<and> calls t = [Call_has_processed (event_identifier ev), Call_simulate_destination_tx (args ev),
                          Return_simulate_destination_tx, Call_mark_as_processed (event_identifier ev)])
       \<and> (calls t \<noteq> [Call_has_processed (event_identifier ev), Call_simulate_destination_tx (args ev),
                        Return_simulate_destination_tx, Call_mark_as_processed (event_identifier ev)]
            \<longrightarrow> st' = st \<and> fs' = fs)"
proof -
  note shape = process_lock_event_shape [OF p]
  have a: "k = event_identifier ev
            \<and> (\<exists>lg. simulate_destination_tx tca (args ev) = Inr lg)
            \<and> calls t = [Call_has_processed (event_identifier ev), Call_simulate_destination_tx (args ev),
                          Return_simulate_destination_tx, Call_mark_as_processed (event_identifier ev)]"
    if "Call_mark_as_processed k \<in> set t"
  proof -
    from that have "Call_mark_as_processed k \<in> set (calls t)" by (simp add: set_calls)
    with shape show ?thesis by auto
  qed
  have b: "st' = st \<and> fs' = fs"
    if "calls t \<noteq> [Call_has_processed (event_identifier ev), Call_simulate_destination_tx (args ev),
                      Return_simulate_destination_tx, Call_mark_as_processed (event_identifier ev)]"
    using shape that by auto
  from a b show ?thesis by blast
qed

theorem commit_only_after_execute_witness:
  "Call_mark_as_processed ''01-0'' \<in> set
      [Log INFO ''Processing event from transaction: 01'',
       Call_has_processed ''01-0'',
       Log INFO ''Event valid. Simulating minting transaction.'',
       Call_simulate_destination_tx
         [(''sender'', VStr ''a''), (''token'', VStr ''t''), (''amount'', VInt 50),
          (''destinationChainId'', VInt 2), (''recipient'', VBytes [])],
       Log INFO ''[SIMULATION] Creating destination transaction'',
       Log INFO ''[SIMULATION] Destination transaction sent and confirmed.'',
       Return_simulate_destination_tx,
       Call_mark_as_processed ''01-0'',
       Log INFO ''Marked transaction 01-0 as processed.'',
       Log INFO ''Successfully processed and marked event 01-0.'']
   \<and> calls (snd (snd (snd (process_lock_event (\<lambda>v. Inr '''') (\<lambda>a. ''s'') \<lparr>db_path = ''db.json'', db = JDict []\<rparr>
              (\<lambda>p. Missing) 3 NoFault
              \<lparr>transactionHash = [0x01], logIndex = 0,
                args = [(''sender'', VStr ''a''), (''token'', VStr ''t''), (''amount'', VInt 50),
                        (''destinationChainId'', VInt 2), (''recipient'', VBytes [])]\<rparr>))))
       = [Call_has_processed ''01-0'',
          Call_simulate_destination_tx
            [(''sender'', VStr ''a''), (''token'', VStr ''t''), (''amount'', VInt 50),
             (''destinationChainId'', VInt 2), (''recipient'', VBytes [])],
          Return_simulate_destination_tx,
          Call_mark_as_processed ''01-0'']
   \<and> calls [Log INFO ''Processing event from transaction: 01'',
             Call_has_processed ''01-0'',
             Log ERROR ''Malformed event 01-0: missing required arguments. Skipping.'']
       \<noteq> [Call_has_processed ''01-0'', Call_simulate_destination_tx [],
           Return_simulate_destination_tx, Call_mark_as_processed ''01-0'']
   \<and> fst (snd (process_lock_event (\<lambda>v. Inr '''') (\<lambda>a. ''s'') \<lparr>db_path = ''db.json'', db = JDict []\<rparr>
              (\<lambda>p. Missing) 3 NoFault \<lparr>transactionHash = [0x01], logIndex = 0, args = []\<rparr>))
       = \<lparr>db_path = ''db.json'', db = JDict []\<rparr>"
proof -
  have a: "Call_mark_as_processed ''01-0'' \<in> set
      [Log INFO ''Processing event from transaction: 01'',
       Call_has_processed ''01-0'',
       Log INFO ''Event valid. Simulating minting transaction.'',
       Call_simulate_destination_tx
         [(''sender'', VStr ''a''), (''token'', VStr ''t''), (''amount'', VInt 50),
          (''destinationChainId'', VInt 2), (''recipient'', VBytes [])],
       Log INFO ''[SIMULATION] Creating destination transaction'',
       Log INFO ''[SIMULATION] Destination transaction sent and confirmed.'',
       Return_simulate_destination_tx,
       Call_mark_as_processed ''01-0'',
       Log INFO ''Marked transaction 01-0 as processed.'',
       Log INFO ''Successfully processed and marked event 01-0.'']"
    by simp
  have b: "calls [Log INFO ''Processing event from transaction: 01'',
             Call_has_processed ''01-0'',
             Log ERROR ''Malformed event 01-0: missing required arguments. Skipping.'']
       \<noteq> [Call_has_processed ''01-0'', Call_simulate_destination_tx [],
           Return_simulate_destination_tx, Call_mark_as_processed ''01-0'']"
    by (simp add: calls_def)
  from commit_only_after_execute [OF run_valid_event, of "''01-0''"]
       commit_only_after_execute [OF run_malformed_event, of "''01-0''"] a b
  show ?thesis by (simp add: run_valid_event run_malformed_event key_01_0)
qed

section \<open>The order of the steps\<close>

text \<open>
  C9, in the form the code satisfies. A fetched batch is handled in the order of the
  fetched sequence, up to an event whose processing raises: when the batch runs to its
  end, every event of it has been processed, next after its predecessors and in the
  state they left, and none has raised; when the batch ends with an error, an event of
  it has raised that error, the events before it have been processed, and the ones
  after it have not.  The keys looked up are those of the events handled, in order.
  Each event goes through the steps in this order: the \<^verbatim>\<open>has_processed\<close> lookup first
  (a recorded key is skipped with a warning, whatever the arguments are), then the
  validation (its two verdicts are reached only for a key that is not recorded), then
  the execute call (only for validated arguments), then, once execute has returned,
  \<^verbatim>\<open>mark_as_processed\<close>.
\<close>

theorem draining_order:
  "(process_lock_event tca str_of st fs now fault ev = (out, st', fs', t) \<longrightarrow>
      (calls t = [Call_has_processed (event_identifier ev)]
       \<or> calls t = [Call_has_processed (event_identifier ev), Call_simulate_destination_tx (args ev)]
       \<or> calls t = [Call_has_processed (event_identifier ev), Call_simulate_destination_tx (args ev),
                     Return_simulate_destination_tx, Call_mark_as_processed (event_identifier ev)])
      \<and> (has_processed st (event_identifier ev) = Inr True \<longrightarrow>
            out = Skipped_already_processed
            \<and> Log WARNING (''Event '' @ event_identifier ev @ '' has already been processed. Skipping.'') \<in> set t)
      \<and> (out = Skipped_malformed \<or> out = Skipped_not_positive \<longrightarrow>
            has_processed st (event_identifier ev) = Inr False)
      \<and> (Call_simulate_destination_tx (args ev) \<in> set t \<longrightarrow>
            list_all (\<lambda>k. k \<in> fst ` set (args ev)) [''sender'', ''token'', ''amount'', ''destinationChainId'']
            \<and> (\<exists>n. map_of (args ev) ''amount'' = Some (VInt n) \<and> 0 < n))
      \<and> (out = Processed \<longrightarrow>
            calls t = [Call_has_processed (event_identifier ev), Call_simulate_destination_tx (args ev),
                       Return_simulate_destination_tx, Call_mark_as_processed (event_identifier ev)]))
   \<and> (for_events tca str_of st fs batch = (r, st2, fs2, t2) \<longrightarrow>
        prefix (checked t2) (map (\<lambda>x. event_identifier (fst x)) batch)
        \<and> (r = None \<longrightarrow> checked t2 = map (\<lambda>x. event_identifier (fst x)) batch)
        \<and> (r = None \<longrightarrow>
              (\<forall>pre ev1 now1 fault1 post. batch = pre @ (ev1, now1, fault1) # post \<longrightarrow>
                 (\<exists>s1 f1 t1 out1 s1' f1' tx.
                    for_events tca str_of st fs pre = (None, s1, f1, t1)
                    \<and> process_lock_event tca str_of s1 f1 now1 fault1 ev1 = (out1, s1', f1', tx)
                    \<and> (\<forall>e. out1 \<noteq> Raised e)
                    \<and> for_events tca str_of st fs (pre @ [(ev1, now1, fault1)]) = (None, s1', f1', t1 @ tx))))
        \<and> (\<forall>e. r = Some e \<longrightarrow>
              (\<exists>pre ev1 now1 fault1 post s1 f1 t1 tx.
                 batch = pre @ (ev1, now1, fault1) # post
                 \<and> for_events tca str_of st fs pre = (None, s1, f1, t1)
                 \<and> process_lock_event tca str_of s1 f1 now1 fault1 ev1 = (Raised e, st2, fs2, tx)
                 \<and> t2 = t1 @ tx)))"
proof -
  have one: "(calls t = [Call_has_processed (event_identifier ev)]
       \<or> calls t = [Call_has_processed (event_identifier ev), Call_simulate_destination_tx (args ev)]
       \<or> calls t = [Call_has_processed (event_identifier ev), Call_simulate_destination_tx (args ev),
                     Return_simulate_destination_tx, Call_mark_as_processed (event_identifier ev)])
      \<and> (out = Processed \<longrightarrow>
            calls t = [Call_has_processed (event_identifier ev), Call_simulate_destination_tx (args ev),
                       Return_simulate_destination_tx, Call_mark_as_processed (event_identifier ev)])"
    if p: "process_lock_event tca str_of st fs now fault ev = (out, st', fs', t)"
    using process_lock_event_shape [OF p] by auto
  from one process_lock_event_verdict [of tca str_of st fs now fault ev out st' fs' t]
  have event: "process_lock_event tca str_of st fs now fault ev = (out, st', fs', t) \<longrightarrow>
      (calls t = [Call_has_processed (event_identifier ev)]
       \<or> calls t = [Call_has_processed (event_identifier ev), Call_simulate_destination_tx (args ev)]
       \<or> calls t = [Call_has_processed (event_identifier ev), Call_simulate_destination_tx (args ev),
                     Return_simulate_destination_tx, Call_mark_as_processed (event_identifier ev)])
      \<and> (has_processed st (event_identifier ev) = Inr True \<longrightarrow>
            out = Skipped_already_processed
            \<and> Log WARNING (''Event '' @ event_identifier ev @ '' has already been processed. Skipping.'') \<in> set t)
      \<and> (out = Skipped_malformed \<or> out = Skipped_not_positive \<longrightarrow>
            has_processed st (event_identifier ev) = Inr False)
      \<and> (Call_simulate_destination_tx (args ev) \<in> set t \<longrightarrow>
            list_all (\<lambda>k. k \<in> fst ` set (args ev)) [''sender'', ''token'', ''amount'', ''destinationChainId'']
            \<and> (\<exists>n. map_of (args ev) ''amount'' = Some (VInt n) \<and> 0 < n))
      \<and> (out = Processed \<longrightarrow>
            calls t = [Call_has_processed (event_identifier ev), Call_simulate_destination_tx (args ev),
                       Return_simulate_destination_tx, Call_mark_as_processed (event_identifier ev)])"
    by blast
  have batch: "for_events tca str_of st fs batch = (r, st2, fs2, t2) \<longrightarrow>
        prefix (checked t2) (map (\<lambda>x. event_identifier (fst x)) batch)
        \<and> (r = None \<longrightarrow> checked t2 = map (\<lambda>x. event_identifier (fst x)) batch)
        \<and> (r = None \<longrightarrow>
              (\<forall>pre ev1 now1 fault1 post. batch = pre @ (ev1, now1, fault1) # post \<longrightarrow>
                 (\<exists>s1 f1 t1 out1 s1' f1' tx.
                    for_events tca str_of st fs pre = (None, s1, f1, t1)
                    \<and> process_lock_event tca str_of s1 f1 now1 fault1 ev1 = (out1, s1', f1', tx)
                    \<and> (\<forall>e. out1 \<noteq> Raised e)
                    \<and> for_events tca str_of st fs (pre @ [(ev1, now1, fault1)]) = (None, s1', f1', t1 @ tx))))
        \<and> (\<forall>e. r = Some e \<longrightarrow>
              (\<exists>pre ev1 now1 fault1 post s1 f1 t1 tx.
                 batch = pre @ (ev1, now1, fault1) # post
                 \<and> for_events tca str_of st fs pre = (None, s1, f1, t1)
                 \<and> process_lock_event tca str_of s1 f1 now1 fault1 ev1 = (Raised e, st2, fs2, tx)
                 \<and> t2 = t1 @ tx))"
  proof (intro impI conjI allI)
    assume f: "for_events tca str_of st fs batch = (r, st2, fs2, t2)"
    from for_events_checked [OF f]
    show "prefix (checked t2) (map (\<lambda>x. event_identifier (fst x)) batch)" by blast
    {
      assume "r = None"
      with for_events_checked [OF f]
      show "checked t2 = map (\<lambda>x. event_identifier (fst x)) batch" by blast
    }
    {
      fix pre ev1 now1 fault1 post
      assume "r = None" and "batch = pre @ (ev1, now1, fault1) # post"
      with f show "\<exists>s1 f1 t1 out1 s1' f1' tx.
                    for_events tca str_of st fs pre = (None, s1, f1, t1)
                    \<and> process_lock_event tca str_of s1 f1 now1 fault1 ev1 = (out1, s1', f1', tx)
                    \<and> (\<forall>e. out1 \<noteq> Raised e)
                    \<and> for_events tca str_of st fs (pre @ [(ev1, now1, fault1)]) = (None, s1', f1', t1 @ tx)"
        using for_events_all_handled [of tca str_of st fs batch st2 fs2 t2 pre ev1 now1 fault1 post]
        by simp
    }
    {
      fix e
      assume "r = Some e"
      with f have "for_events tca str_of st fs batch = (Some e, st2, fs2, t2)" by simp
      then show "\<exists>pre ev1 now1 fault1 post s1 f1 t1 tx.
                 batch = pre @ (ev1, now1, fault1) # post
                 \<and> for_events tca str_of st fs pre = (None, s1, f1, t1)
                 \<and> process_lock_event tca str_of s1 f1 now1 fault1 ev1 = (Raised e, st2, fs2, tx)
                 \<and> t2 = t1 @ tx"
        by (rule for_events_raised)
    }
  qed
  from event batch show ?thesis by (rule conjI)
qed

theorem draining_order_witness:
  "has_processed \<lparr>db_path = ''db.json'', db = JDict [(''01-0'', JDict [])]\<rparr>
      (event_identifier \<lparr>transactionHash = [0x01], logIndex = 0, args = []\<rparr>) = Inr True
   \<and> fst (process_lock_event (\<lambda>v. Inr '''') (\<lambda>a. ''s'') \<lparr>db_path = ''db.json'', db = JDict [(''01-0'', JDict [])]\<rparr>
        (\<lambda>p. Missing) 3 NoFault \<lparr>transactionHash = [0x01], logIndex = 0, args = []\<rparr>)
       = Skipped_already_processed
   \<and> fst (process_lock_event (\<lambda>v. Inr '''') (\<lambda>a. ''s'') \<lparr>db_path = ''db.json'', db = JDict []\<rparr>
        (\<lambda>p. Missing) 3 NoFault \<lparr>transactionHash = [0x01], logIndex = 0, args = []\<rparr>)
       = Skipped_malformed
   \<and> has_processed \<lparr>db_path = ''db.json'', db = JDict []\<rparr>
      (event_identifier \<lparr>transactionHash = [0x01], logIndex = 0, args = []\<rparr>) = Inr False
   \<and> fst (process_lock_event (\<lambda>v. Inr '''') (\<lambda>a. ''s'') \<lparr>db_path = ''db.json'', db = JDict []\<rparr>
        (\<lambda>p. Missing) 3 NoFault
        \<lparr>transactionHash = [0x01], logIndex = 0,
          args = [(''sender'', VStr ''a''), (''token'', VStr ''t''), (''amount'', VInt 50),
                  (''destinationChainId'', VInt 2), (''recipient'', VBytes [])]\<rparr>)
       = Processed
   \<and> calls (snd (snd (snd (process_lock_event (\<lambda>v. Inr '''') (\<lambda>a. ''s'') \<lparr>db_path = ''db.json'', db = JDict []\<rparr>
        (\<lambda>p. Missing) 3 NoFault
        \<lparr>transactionHash = [0x01], logIndex = 0,
          args = [(''sender'', VStr ''a''), (''token'', VStr ''t''), (''amount'', VInt 50),
                  (''destinationChainId'', VInt 2), (''recipient'', VBytes [])]\<rparr>))))
       = [Call_has_processed ''01-0'',
          Call_simulate_destination_tx
            [(''sender'', VStr ''a''), (''token'', VStr ''t''), (''amount'', VInt 50),
             (''destinationChainId'', VInt 2), (''recipient'', VBytes [])],
          Return_simulate_destination_tx,
          Call_mark_as_processed ''01-0'']
   \<and> fst (for_events (\<lambda>v. Inr '''') (\<lambda>a. ''s'') \<lparr>db_path = ''db.json'', db = JDict []\<rparr> (\<lambda>p. Missing)
     [(\<lparr>transactionHash = [0x01], logIndex = 0,
         args = [(''sender'', VStr ''a''), (''token'', VStr ''t''), (''amount'', VInt 50),
                 (''destinationChainId'', VInt 2), (''recipient'', VBytes [])]\<rparr>, 3, NoFault),
      (\<lparr>transactionHash = [0x01], logIndex = 1,
         args = [(''sender'', VStr ''a''), (''token'', VStr ''t''), (''amount'', VInt 75),
                 (''destinationChainId'', VInt 2), (''recipient'', VBytes [])]\<rparr>, 3, NoFault)]) = None
   \<and> checked (snd (snd (snd (for_events (\<lambda>v. Inr '''') (\<lambda>a. ''s'') \<lparr>db_path = ''db.json'', db = JDict []\<rparr> (\<lambda>p. Missing)
     [(\<lparr>transactionHash = [0x01], logIndex = 0,
         args = [(''sender'', VStr ''a''), (''token'', VStr ''t''), (''amount'', VInt 50),
                 (''destinationChainId'', VInt 2), (''recipient'', VBytes [])]\<rparr>, 3, NoFault),
      (\<lparr>transactionHash = [0x01], logIndex = 1,
         args = [(''sender'', VStr ''a''), (''token'', VStr ''t''), (''amount'', VInt 75),
                 (''destinationChainId'', VInt 2), (''recipient'', VBytes [])]\<rparr>, 3, NoFault)]))))
       = [''01-0'', ''01-1'']
   \<and> (\<exists>s1 f1 t1 out1 s1' f1' tx.
         for_events (\<lambda>v. Inr '''') (\<lambda>a. ''s'') \<lparr>db_path = ''db.json'', db = JDict []\<rparr> (\<lambda>p. Missing)
           [(\<lparr>transactionHash = [0x01], logIndex = 0,
         args = [(''sender'', VStr ''a''), (''token'', VStr ''t''), (''amount'', VInt 50),
                 (''destinationChainId'', VInt 2), (''recipient'', VBytes [])]\<rparr>, 3, NoFault)] = (None, s1, f1, t1)
         \<and> process_lock_event (\<lambda>v. Inr '''') (\<lambda>a. ''s'') s1 f1 3 NoFault
             \<lparr>transactionHash = [0x01], logIndex = 1,
         args = [(''sender'', VStr ''a''), (''token'', VStr ''t''), (''amount'', VInt 75),
                 (''destinationChainId'', VInt 2), (''recipient'', VBytes [])]\<rparr> = (out1, s1', f1', tx)
         \<and> (\<forall>e. out1 \<noteq> Raised e)
         \<and> for_events (\<lambda>v. Inr '''') (\<lambda>a. ''s'') \<lparr>db_path = ''db.json'', db = JDict []\<rparr> (\<lambda>p. Missing)
           ([(\<lparr>transactionHash = [0x01], logIndex = 0,
         args = [(''sender'', VStr ''a''), (''token'', VStr ''t''), (''amount'', VInt 50),
                 (''destinationChainId'', VInt 2), (''recipient'', VBytes [])]\<rparr>, 3, NoFault)] @ [(\<lparr>transactionHash = [0x01], logIndex = 1,
         args = [(''sender'', VStr ''a''), (''token'', VStr ''t''), (''amount'', VInt 75),
                 (''destinationChainId'', VInt 2), (''recipient'', VBytes [])]\<rparr>, 3, NoFault)]) = (None, s1', f1', t1 @ tx))
   \<and> fst (for_events (\<lambda>v. Inr '''') (\<lambda>a. ''s'') \<lparr>db_path = ''db.json'', db = JDict []\<rparr> (\<lambda>p. Missing)
           [(\<lparr>transactionHash = [0x01], logIndex = 0,
         args = [(''sender'', VStr ''a''), (''token'', VStr ''t''), (''amount'', VStr ''x''),
                 (''destinationChainId'', VInt 2), (''recipient'', VBytes [])]\<rparr>, 3, NoFault),
            (\<lparr>transactionHash = [0x01], logIndex = 1,
         args = [(''sender'', VStr ''a''), (''token'', VStr ''t''), (''amount'', VInt 75),
                 (''destinationChainId'', VInt 2), (''recipient'', VBytes [])]\<rparr>, 3, NoFault)]) = Some TypeError
   \<and> (\<exists>pre ev1 now1 fault1 post s1 f1 t1 tx.
         [(\<lparr>transactionHash = [0x01], logIndex = 0,
         args = [(''sender'', VStr ''a''), (''token'', VStr ''t''), (''amount'', VStr ''x''),
                 (''destinationChainId'', VInt 2), (''recipient'', VBytes [])]\<rparr>, 3, NoFault),
          (\<lparr>transactionHash = [0x01], logIndex = 1,
         args = [(''sender'', VStr ''a''), (''token'', VStr ''t''), (''amount'', VInt 75),
                 (''destinationChainId'', VInt 2), (''recipient'', VBytes [])]\<rparr>, 3, NoFault)] = pre @ (ev1, now1, fault1) # post
         \<and> for_events (\<lambda>v. Inr '''') (\<lambda>a. ''s'') \<lparr>db_path = ''db.json'', db = JDict []\<rparr> (\<lambda>p. Missing) pre = (None, s1, f1, t1)
         \<and> process_lock_event (\<lambda>v. Inr '''') (\<lambda>a. ''s'') s1 f1 now1 fault1 ev1
             = (Raised TypeError, \<lparr>db_path = ''db.json'', db = JDict []\<rparr>, (\<lambda>p. Missing), tx)
         \<and> [Log INFO ''Processing event from transaction: 01'', Call_has_processed ''01-0''] = t1 @ tx)"
proof -
  let ?tca = "(\<lambda>v. Inr '''') :: pyval \<Rightarrow> error + string"
  let ?str = "(\<lambda>a. ''s'') :: event_args \<Rightarrow> string"
  let ?fs = "(\<lambda>p. Missing) :: filesystem"
  let ?st0 = "\<lparr>db_path = ''db.json'', db = JDict []\<rparr>"
  let ?st1 = "\<lparr>db_path = ''db.json'', db = JDict [(''01-0'', JDict [])]\<rparr>"
  let ?bad = "\<lparr>transactionHash = [0x01], logIndex = 0, args = []\<rparr>"
  let ?e0 = "\<lparr>transactionHash = [0x01], logIndex = 0,
          args = [(''sender'', VStr ''a''), (''token'', VStr ''t''), (''amount'', VInt 50),
                  (''destinationChainId'', VInt 2), (''recipient'', VBytes [])]\<rparr>"
  let ?e1 = "\<lparr>transactionHash = [0x01], logIndex = 1,
         args = [(''sender'', VStr ''a''), (''token'', VStr ''t''), (''amount'', VInt 75),
                 (''destinationChainId'', VInt 2), (''recipient'', VBytes [])]\<rparr>"
  let ?replayed = "process_lock_event ?tca ?str ?st1 ?fs 3 NoFault ?bad"
  let ?malformed = "process_lock_event ?tca ?str ?st0 ?fs 3 NoFault ?bad"
  let ?valid = "process_lock_event ?tca ?str ?st0 ?fs 3 NoFault ?e0"
  let ?batch = "for_events ?tca ?str ?st0 ?fs [(?e0, 3, NoFault), (?e1, 3, NoFault)]"
  have rec: "has_processed ?st1 (event_identifier ?bad) = Inr True"
    by (simp add: key_01_0 has_processed_def)
  have p1: "?replayed = (fst ?replayed, fst (snd ?replayed), fst (snd (snd ?replayed)), snd (snd (snd ?replayed)))"
    by simp
  from draining_order [THEN conjunct1, THEN mp, OF p1] rec
  have a: "fst ?replayed = Skipped_already_processed" by blast
  have p2: "?malformed = (fst ?malformed, fst (snd ?malformed), fst (snd (snd ?malformed)), snd (snd (snd ?malformed)))"
    by simp
  have b: "fst ?malformed = Skipped_malformed" by (simp only: run_malformed_event fst_conv)
  from draining_order [THEN conjunct1, THEN mp, OF p2] b
  have c: "has_processed ?st0 (event_identifier ?bad) = Inr False" by blast
  have p3: "?valid = (fst ?valid, fst (snd ?valid), fst (snd (snd ?valid)), snd (snd (snd ?valid)))"
    by simp
  have d: "fst ?valid = Processed" by (simp only: run_valid_event fst_conv)
  from draining_order [THEN conjunct1, THEN mp, OF p3] d
  have "calls (snd (snd (snd ?valid)))
          = [Call_has_processed (event_identifier ?e0), Call_simulate_destination_tx (args ?e0),
             Return_simulate_destination_tx, Call_mark_as_processed (event_identifier ?e0)]"
    by blast
  then have e: "calls (snd (snd (snd ?valid)))
          = [Call_has_processed ''01-0'',
             Call_simulate_destination_tx
               [(''sender'', VStr ''a''), (''token'', VStr ''t''), (''amount'', VInt 50),
                (''destinationChainId'', VInt 2), (''recipient'', VBytes [])],
             Return_simulate_destination_tx, Call_mark_as_processed ''01-0'']"
    by (simp add: key_01_0)
  have p4: "?batch = (fst ?batch, fst (snd ?batch), fst (snd (snd ?batch)), snd (snd (snd ?batch)))"
    by simp
  have f: "fst ?batch = None" by (simp only: run_batch fst_conv)
  note whole = draining_order [THEN conjunct2, THEN mp, OF p4]
  from whole [THEN conjunct2, THEN conjunct1, THEN mp, OF f]
  have g: "checked (snd (snd (snd ?batch))) = [''01-0'', ''01-1'']"
    by (simp add: key_01_0 key_01_1)
  have split: "[(?e0, 3, NoFault), (?e1, 3, NoFault)] = [(?e0, 3, NoFault)] @ (?e1, 3, NoFault) # []"
    by simp
  note h = whole [THEN conjunct2, THEN conjunct2, THEN conjunct1, rule_format, OF f split]
  let ?et = "\<lparr>transactionHash = [0x01], logIndex = 0,
         args = [(''sender'', VStr ''a''), (''token'', VStr ''t''), (''amount'', VStr ''x''),
                 (''destinationChainId'', VInt 2), (''recipient'', VBytes [])]\<rparr>"
  let ?raising = "for_events ?tca ?str ?st0 ?fs [(?et, 3, NoFault), (?e1, 3, NoFault)]"
  have i: "fst ?raising = Some TypeError" by (simp only: run_raising_batch fst_conv)
  note j = draining_order [THEN conjunct2, THEN mp, OF run_raising_batch,
                           THEN conjunct2, THEN conjunct2, THEN conjunct2, rule_format, OF refl]
  from rec a b c d e f g h i j show ?thesis by blast
qed


theorem draining_order_counterexample:
  "spec_draining_outcome \<lparr>db_path = ''db.json'', db = JDict [(''01-0'', JDict [])]\<rparr>
      \<lparr>transactionHash = [0x01], logIndex = 0, args = []\<rparr> = Skipped_malformed
   \<and> process_lock_event (\<lambda>v. Inr '''') (\<lambda>a. ''s'') \<lparr>db_path = ''db.json'', db = JDict [(''01-0'', JDict [])]\<rparr>
        (\<lambda>p. Missing) 3 NoFault \<lparr>transactionHash = [0x01], logIndex = 0, args = []\<rparr>
     = (Skipped_already_processed, \<lparr>db_path = ''db.json'', db = JDict [(''01-0'', JDict [])]\<rparr>, (\<lambda>p. Missing),
        [Log INFO ''Processing event from transaction: 01'',
         Call_has_processed ''01-0'',
         Log WARNING ''Event 01-0 has already been processed. Skipping.''])"
  by (simp add: spec_draining_outcome_def process_lock_event_def Let_def key_01_0 hex_01 has_processed_def)

end
